theory Spec2Isabelle
  imports Main "HOL-Library.Word" "HOL-Library.AList" "HOL-Library.Sublist"
begin

unbundle bit_operations_syntax

section \<open>Platform values: buffers, strings, JSON values, exceptions\<close>

text \<open>
  An \<open>ArrayBuffer\<close> is a list of bytes.  A JavaScript string is a list of UTF-16 code
  units.
\<close>

type_synonym byte = "8 word"
type_synonym ArrayBuffer = "byte list"
type_synonym jschar = "16 word"
type_synonym jsstring = "jschar list"

text \<open>
  The values \<open>JSON.parse\<close> can return.  \<open>JNumber n\<close> stands for the number \<open>n\<close>, an
  integer that a double holds exactly; numbers with a fraction are outside the model.
  An object lists its properties in enumeration order; the keys of a JavaScript object
  are distinct (\<open>wf_json\<close>).  A JavaScript value that may be \<open>undefined\<close> is a
  \<open>json option\<close>, \<open>None\<close> for \<open>undefined\<close>.
\<close>

datatype json =
    JNull
  | JBool bool
  | JNumber int
  | JString jsstring
  | JArray "json list"
  | JObject "(jsstring \<times> json) list"

text \<open>
  A thrown exception is a value of \<open>js_exception\<close>; a function that may throw returns
  \<open>js_exception + 'a\<close> with \<open>Inl\<close> for the throw.  \<open>RangeError\<close>, \<open>SyntaxError\<close> and
  \<open>TypeError\<close> are raised by the engine, \<open>Error m\<close> is \<open>new Error(m)\<close>, and \<open>Thrown\<close> is
  an error object that a hook, the executor or a result sequence throws: its \<open>name\<close>,
  \<open>message\<close> and \<open>errors\<close> properties and its own enumerable properties.
\<close>

record thrown_object =
  thrown_name :: "json option"
  thrown_message :: "json option"
  thrown_errors :: "json option"
  thrown_enumerable :: "(jsstring \<times> json) list"

datatype js_exception =
    RangeError
  | SyntaxError
  | TypeError
  | Error jsstring
  | Thrown thrown_object

definition js :: "string \<Rightarrow> jsstring" where
  "js s = map (\<lambda>c. of_nat (of_char c)) s"

definition and_then :: "js_exception + 'a \<Rightarrow> ('a \<Rightarrow> js_exception + 'b) \<Rightarrow> js_exception + 'b" where
  "and_then m f = (case m of Inl e \<Rightarrow> Inl e | Inr x \<Rightarrow> f x)"

subsection \<open>DataView: little-endian 32-bit reads and writes\<close>

text \<open>
  \<open>DataView.getUint32(byteOffset, true)\<close> and \<open>DataView.setUint32(byteOffset, value, true)\<close>.
  Both throw a RangeError when the four bytes do not lie inside the buffer; the written
  value is taken modulo \<open>2^32\<close> (ToUint32), byte by byte.
\<close>

definition getUint32 :: "ArrayBuffer \<Rightarrow> nat \<Rightarrow> js_exception + nat" where
  "getUint32 buffer byteOffset =
     (if length buffer < byteOffset + 4 then Inl RangeError
      else Inr (unat (buffer ! byteOffset)
              + 256 * unat (buffer ! (byteOffset + 1))
              + 65536 * unat (buffer ! (byteOffset + 2))
              + 16777216 * unat (buffer ! (byteOffset + 3))))"

definition uint32_bytes :: "nat \<Rightarrow> byte list" where
  "uint32_bytes v = [of_nat v, of_nat (v div 256), of_nat (v div 65536), of_nat (v div 16777216)]"

definition setUint32 :: "ArrayBuffer \<Rightarrow> nat \<Rightarrow> nat \<Rightarrow> js_exception + ArrayBuffer" where
  "setUint32 buffer byteOffset v =
     (if length buffer < byteOffset + 4 then Inl RangeError
      else Inr (take byteOffset buffer @ uint32_bytes v @ drop (byteOffset + 4) buffer))"

subsection \<open>Buffer: UTF-8 encoding and decoding of strings\<close>

text \<open>
  \<open>Buffer.from(string)\<close> encodes the UTF-16 code units as UTF-8: a surrogate pair becomes
  one four-byte sequence, a lone surrogate the replacement character \<open>EF BF BD\<close>.
\<close>

definition is_high_surrogate :: "jschar \<Rightarrow> bool" where
  "is_high_surrogate c = (0xD800 \<le> c \<and> c \<le> 0xDBFF)"

definition is_low_surrogate :: "jschar \<Rightarrow> bool" where
  "is_low_surrogate c = (0xDC00 \<le> c \<and> c \<le> 0xDFFF)"

definition utf8_bytes :: "nat \<Rightarrow> byte list" where
  "utf8_bytes cp =
     (if cp < 0x80 then [of_nat cp]
      else if cp < 0x800 then [of_nat (0xC0 + cp div 64), of_nat (0x80 + cp mod 64)]
      else if cp < 0x10000 then
        [of_nat (0xE0 + cp div 4096), of_nat (0x80 + cp div 64 mod 64), of_nat (0x80 + cp mod 64)]
      else
        [of_nat (0xF0 + cp div 262144), of_nat (0x80 + cp div 4096 mod 64),
         of_nat (0x80 + cp div 64 mod 64), of_nat (0x80 + cp mod 64)])"

fun Buffer_from :: "jsstring \<Rightarrow> byte list" where
  "Buffer_from [] = []"
| "Buffer_from [c] =
     (if is_high_surrogate c \<or> is_low_surrogate c then [0xEF, 0xBF, 0xBD] else utf8_bytes (unat c))"
| "Buffer_from (c # d # cs) =
     (if is_high_surrogate c \<and> is_low_surrogate d
        then utf8_bytes (0x10000 + (unat c - 0xD800) * 1024 + (unat d - 0xDC00)) @ Buffer_from cs
      else if is_high_surrogate c \<or> is_low_surrogate c
        then [0xEF, 0xBF, 0xBD] @ Buffer_from (d # cs)
      else utf8_bytes (unat c) @ Buffer_from (d # cs))"

text \<open>
  \<open>Buffer.toString()\<close> decodes UTF-8; every maximal ill-formed subsequence becomes one
  replacement character \<open>U+FFFD\<close>, a code point above \<open>U+FFFF\<close> a surrogate pair.
\<close>

definition code_units :: "nat \<Rightarrow> jsstring" where
  "code_units cp =
     (if cp < 0x10000 then [of_nat cp]
      else [of_nat (0xD800 + (cp - 0x10000) div 1024), of_nat (0xDC00 + (cp - 0x10000) mod 1024)])"

definition continuation :: "byte \<Rightarrow> byte \<Rightarrow> byte \<Rightarrow> bool" where
  "continuation lower upper b = (lower \<le> b \<and> b \<le> upper)"

definition low6 :: "byte \<Rightarrow> nat" where
  "low6 b = unat b mod 64"

fun toString :: "byte list \<Rightarrow> jsstring" where
  "toString [] = []"
| "toString (b # bs) =
     (if b < 0x80 then of_nat (unat b) # toString bs
      else if 0xC2 \<le> b \<and> b \<le> 0xDF then
        (case bs of
           [] \<Rightarrow> [0xFFFD]
         | c1 # r1 \<Rightarrow>
             if continuation 0x80 0xBF c1
             then code_units (unat b mod 32 * 64 + low6 c1) @ toString r1
             else 0xFFFD # toString bs)
      else if 0xE0 \<le> b \<and> b \<le> 0xEF then
        (case bs of
           [] \<Rightarrow> [0xFFFD]
         | c1 # r1 \<Rightarrow>
             if continuation (if b = 0xE0 then 0xA0 else 0x80) (if b = 0xED then 0x9F else 0xBF) c1
             then (case r1 of
                     [] \<Rightarrow> [0xFFFD]
                   | c2 # r2 \<Rightarrow>
                       if continuation 0x80 0xBF c2
                       then code_units (unat b mod 16 * 4096 + low6 c1 * 64 + low6 c2) @ toString r2
                       else 0xFFFD # toString r1)
             else 0xFFFD # toString bs)
      else if 0xF0 \<le> b \<and> b \<le> 0xF4 then
        (case bs of
           [] \<Rightarrow> [0xFFFD]
         | c1 # r1 \<Rightarrow>
             if continuation (if b = 0xF0 then 0x90 else 0x80) (if b = 0xF4 then 0x8F else 0xBF) c1
             then (case r1 of
                     [] \<Rightarrow> [0xFFFD]
                   | c2 # r2 \<Rightarrow>
                       if continuation 0x80 0xBF c2
                       then (case r2 of
                               [] \<Rightarrow> [0xFFFD]
                             | c3 # r3 \<Rightarrow>
                                 if continuation 0x80 0xBF c3
                                 then code_units (unat b mod 8 * 262144 + low6 c1 * 4096
                                                   + low6 c2 * 64 + low6 c3) @ toString r3
                                 else 0xFFFD # toString r2)
                       else 0xFFFD # toString r1)
             else 0xFFFD # toString bs)
      else 0xFFFD # toString bs)"

subsection \<open>\<open>JSON.stringify\<close> and \<open>JSON.parse\<close>\<close>


text \<open>
  \<open>JSON.stringify\<close>: no white space; in a string the quote, the backslash and the
  control characters below \<open>U+0020\<close> are escaped, every other code unit is copied.
\<close>

definition hex_digit :: "nat \<Rightarrow> jschar" where
  "hex_digit n = (if n < 10 then of_nat (48 + n) else of_nat (87 + n))"

definition quote_char :: "jschar \<Rightarrow> jsstring" where
  "quote_char c =
     (if c = 0x22 then [0x5C, 0x22]
      else if c = 0x5C then [0x5C, 0x5C]
      else if c = 0x08 then [0x5C, 0x62]
      else if c = 0x09 then [0x5C, 0x74]
      else if c = 0x0A then [0x5C, 0x6E]
      else if c = 0x0C then [0x5C, 0x66]
      else if c = 0x0D then [0x5C, 0x72]
      else if c < 0x20 then [0x5C, 0x75, 0x30, 0x30, hex_digit (unat c div 16), hex_digit (unat c mod 16)]
      else [c])"

definition QuoteJSONString :: "jsstring \<Rightarrow> jsstring" where
  "QuoteJSONString s = 0x22 # concat (map quote_char s) @ [0x22]"

fun digits :: "nat \<Rightarrow> jsstring" where
  "digits n = (if n < 10 then [of_nat (48 + n)] else digits (n div 10) @ [of_nat (48 + n mod 10)])"

declare digits.simps [simp del]

definition NumberToString :: "int \<Rightarrow> jsstring" where
  "NumberToString n = (if n < 0 then 0x2D # digits (nat (- n)) else digits (nat n))"

fun SerializeJSONProperty :: "json \<Rightarrow> jsstring"
  and SerializeJSONArray :: "json list \<Rightarrow> jsstring"
  and SerializeJSONObject :: "(jsstring \<times> json) list \<Rightarrow> jsstring" where
  "SerializeJSONProperty JNull = js ''null''"
| "SerializeJSONProperty (JBool b) = (if b then js ''true'' else js ''false'')"
| "SerializeJSONProperty (JNumber n) = NumberToString n"
| "SerializeJSONProperty (JString s) = QuoteJSONString s"
| "SerializeJSONProperty (JArray vs) = 0x5B # SerializeJSONArray vs @ [0x5D]"
| "SerializeJSONProperty (JObject kvs) = 0x7B # SerializeJSONObject kvs @ [0x7D]"
| "SerializeJSONArray [] = []"
| "SerializeJSONArray [v] = SerializeJSONProperty v"
| "SerializeJSONArray (v # w # vs) = SerializeJSONProperty v @ 0x2C # SerializeJSONArray (w # vs)"
| "SerializeJSONObject [] = []"
| "SerializeJSONObject [kv] = QuoteJSONString (fst kv) @ 0x3A # SerializeJSONProperty (snd kv)"
| "SerializeJSONObject (kv # kw # kvs) =
     QuoteJSONString (fst kv) @ 0x3A # SerializeJSONProperty (snd kv)
       @ 0x2C # SerializeJSONObject (kw # kvs)"

definition JSON_stringify :: "json option \<Rightarrow> jsstring option" where
  "JSON_stringify v = map_option SerializeJSONProperty v"

text \<open>
  \<open>JSON.parse\<close>, by recursive descent.  The fuel bounds the recursion; a text of \<open>n\<close>
  code units nests fewer than \<open>n\<close> values, so \<open>JSON_parse\<close> never runs out.  A number with a
  fraction or an exponent has no value in \<open>json\<close> and is refused here, although
  JavaScript reads it: nothing below rests on a refusal other than that of the empty text.
  Of two members with the same key the later one wins, at the place of the first.
\<close>

definition is_ws :: "jschar \<Rightarrow> bool" where
  "is_ws c = (c = 0x20 \<or> c = 0x09 \<or> c = 0x0A \<or> c = 0x0D)"

definition skip_ws :: "jsstring \<Rightarrow> jsstring" where
  "skip_ws s = dropWhile is_ws s"

definition is_digit :: "jschar \<Rightarrow> bool" where
  "is_digit c = (0x30 \<le> c \<and> c \<le> 0x39)"

definition hex_value :: "jschar \<Rightarrow> nat option" where
  "hex_value c =
     (if 0x30 \<le> c \<and> c \<le> 0x39 then Some (unat c - 48)
      else if 0x61 \<le> c \<and> c \<le> 0x66 then Some (unat c - 87)
      else if 0x41 \<le> c \<and> c \<le> 0x46 then Some (unat c - 55)
      else None)"

definition hex4 :: "jschar \<Rightarrow> jschar \<Rightarrow> jschar \<Rightarrow> jschar \<Rightarrow> jschar option" where
  "hex4 h1 h2 h3 h4 =
     (case (hex_value h1, hex_value h2, hex_value h3, hex_value h4) of
        (Some a, Some b, Some c, Some d) \<Rightarrow> Some (of_nat (4096 * a + 256 * b + 16 * c + d))
      | _ \<Rightarrow> None)"

definition unescape :: "jschar \<Rightarrow> jschar option" where
  "unescape e =
     (if e = 0x22 then Some 0x22
      else if e = 0x5C then Some 0x5C
      else if e = 0x2F then Some 0x2F
      else if e = 0x62 then Some 0x08
      else if e = 0x66 then Some 0x0C
      else if e = 0x6E then Some 0x0A
      else if e = 0x72 then Some 0x0D
      else if e = 0x74 then Some 0x09
      else None)"

definition cons_fst :: "'a \<Rightarrow> ('a list \<times> 'b) option \<Rightarrow> ('a list \<times> 'b) option" where
  "cons_fst x r = (case r of None \<Rightarrow> None | Some (xs, rest) \<Rightarrow> Some (x # xs, rest))"

fun parse_chars :: "jsstring \<Rightarrow> (jsstring \<times> jsstring) option" where
  "parse_chars [] = None"
| "parse_chars (c # cs) =
     (if c = 0x22 then Some ([], cs)
      else if c = 0x5C then
        (case cs of
           [] \<Rightarrow> None
         | e # r \<Rightarrow>
             if e = 0x75 then
               (case r of
                  h1 # h2 # h3 # h4 # r' \<Rightarrow>
                    (case hex4 h1 h2 h3 h4 of
                       None \<Rightarrow> None
                     | Some u \<Rightarrow> cons_fst u (parse_chars r'))
                | _ \<Rightarrow> None)
             else
               (case unescape e of
                  None \<Rightarrow> None
                | Some u \<Rightarrow> cons_fst u (parse_chars r)))
      else if c < 0x20 then None
      else cons_fst c (parse_chars cs))"

fun digits_value :: "jsstring \<Rightarrow> nat \<Rightarrow> nat" where
  "digits_value [] acc = acc"
| "digits_value (c # cs) acc = digits_value cs (10 * acc + (unat c - 48))"

definition parse_nat :: "jsstring \<Rightarrow> (nat \<times> jsstring) option" where
  "parse_nat s =
     (let ds = takeWhile is_digit s; rest = dropWhile is_digit s
      in if ds = [] then None
         else if hd ds = 0x30 \<and> 1 < length ds then None
         else if rest \<noteq> [] \<and> (hd rest = 0x2E \<or> hd rest = 0x65 \<or> hd rest = 0x45) then None
         else Some (digits_value ds 0, rest))"

definition parse_number :: "jsstring \<Rightarrow> (json \<times> jsstring) option" where
  "parse_number s =
     (if s \<noteq> [] \<and> hd s = 0x2D
      then (case parse_nat (tl s) of
              None \<Rightarrow> None
            | Some (n, rest) \<Rightarrow> Some (JNumber (- int n), rest))
      else (case parse_nat s of
              None \<Rightarrow> None
            | Some (n, rest) \<Rightarrow> Some (JNumber (int n), rest)))"

definition parse_literal :: "jsstring \<Rightarrow> (json \<times> jsstring) option" where
  "parse_literal s =
     (if take 4 s = js ''null'' then Some (JNull, drop 4 s)
      else if take 4 s = js ''true'' then Some (JBool True, drop 4 s)
      else if take 5 s = js ''false'' then Some (JBool False, drop 5 s)
      else parse_number s)"

definition object_of_members :: "(jsstring \<times> json) list \<Rightarrow> json" where
  "object_of_members kvs = JObject (foldl (\<lambda>obj kv. AList.update (fst kv) (snd kv) obj) [] kvs)"

fun parse_value :: "nat \<Rightarrow> jsstring \<Rightarrow> (json \<times> jsstring) option"
  and parse_elements :: "nat \<Rightarrow> jsstring \<Rightarrow> (json list \<times> jsstring) option"
  and parse_members :: "nat \<Rightarrow> jsstring \<Rightarrow> ((jsstring \<times> json) list \<times> jsstring) option" where
  "parse_value 0 s = None"
| "parse_value (Suc n) s =
     (case skip_ws s of
        [] \<Rightarrow> None
      | c # cs \<Rightarrow>
          if c = 0x7B then
            (if skip_ws cs \<noteq> [] \<and> hd (skip_ws cs) = 0x7D then Some (JObject [], tl (skip_ws cs))
             else (case parse_members n cs of
                     None \<Rightarrow> None
                   | Some (kvs, rest) \<Rightarrow> Some (object_of_members kvs, rest)))
          else if c = 0x5B then
            (if skip_ws cs \<noteq> [] \<and> hd (skip_ws cs) = 0x5D then Some (JArray [], tl (skip_ws cs))
             else (case parse_elements n cs of
                     None \<Rightarrow> None
                   | Some (vs, rest) \<Rightarrow> Some (JArray vs, rest)))
          else if c = 0x22 then
            (case parse_chars cs of
               None \<Rightarrow> None
             | Some (str, rest) \<Rightarrow> Some (JString str, rest))
          else parse_literal (c # cs))"
| "parse_elements 0 s = None"
| "parse_elements (Suc n) s =
     (case parse_value n s of
        None \<Rightarrow> None
      | Some (v, r) \<Rightarrow>
          (case skip_ws r of
             [] \<Rightarrow> None
           | c # r' \<Rightarrow>
               if c = 0x2C then cons_fst v (parse_elements n r')
               else if c = 0x5D then Some ([v], r')
               else None))"
| "parse_members 0 s = None"
| "parse_members (Suc n) s =
     (case skip_ws s of
        [] \<Rightarrow> None
      | q # cs \<Rightarrow>
          if q \<noteq> 0x22 then None
          else (case parse_chars cs of
                  None \<Rightarrow> None
                | Some (k, r) \<Rightarrow>
                    (case skip_ws r of
                       [] \<Rightarrow> None
                     | colon # r1 \<Rightarrow>
                         if colon \<noteq> 0x3A then None
                         else (case parse_value n r1 of
                                 None \<Rightarrow> None
                               | Some (v, r2) \<Rightarrow>
                                   (case skip_ws r2 of
                                      [] \<Rightarrow> None
                                    | c # r3 \<Rightarrow>
                                        if c = 0x2C then cons_fst (k, v) (parse_members n r3)
                                        else if c = 0x7D then Some ([(k, v)], r3)
                                        else None)))))"

definition JSON_parse :: "jsstring \<Rightarrow> js_exception + json" where
  "JSON_parse text =
     (case parse_value (Suc (length text)) text of
        None \<Rightarrow> Inl SyntaxError
      | Some (v, rest) \<Rightarrow> if skip_ws rest = [] then Inr v else Inl SyntaxError)"

subsection \<open>Auxiliary predicates on texts\<close>

definition ascii :: "jsstring \<Rightarrow> bool" where
  "ascii s = list_all (\<lambda>c. c < 0x80) s"

definition follow_ok :: "jsstring \<Rightarrow> bool" where
  "follow_ok r = (r = [] \<or> (\<not> is_digit (hd r) \<and> hd r \<noteq> 0x2E \<and> hd r \<noteq> 0x65 \<and> hd r \<noteq> 0x45))"


section \<open>The message codec\<close>

text \<open>
  The numeric message kinds of \<open>MessageType\<close>.  The module that fixes the numbers is not
  among the sources, so the codec and the server take the numbering as a parameter.
\<close>

record MessageType =
  GQL_CONNECTION_INIT :: nat
  GQL_CONNECTION_ACK :: nat
  GQL_CONNECTION_ERROR :: nat
  GQL_CONNECTION_TERMINATE :: nat
  GQL_CONNECTION_KEEP_ALIVE :: nat
  GQL_START :: nat
  GQL_DATA :: nat
  GQL_ERROR :: nat
  GQL_COMPLETE :: nat
  GQL_STOP :: nat

text \<open>
  One numbering, the kinds counted from 0 in the order the spec lists them; it serves the
  concrete instances only.
\<close>

definition MessageType_in_order :: MessageType where
  "MessageType_in_order =
     \<lparr>GQL_CONNECTION_INIT = 0, GQL_CONNECTION_ACK = 1, GQL_CONNECTION_ERROR = 2,
      GQL_CONNECTION_TERMINATE = 3, GQL_CONNECTION_KEEP_ALIVE = 4, GQL_START = 5,
      GQL_DATA = 6, GQL_ERROR = 7, GQL_COMPLETE = 8, GQL_STOP = 9\<rparr>"

record OperationMessageFilePayload =
  fileId :: nat
  currentChunk :: nat
  chunks :: nat
  buffer :: ArrayBuffer

datatype OperationMessagePayload =
    QueryPayload json
  | FilePayload OperationMessageFilePayload

record OperationMessage =
  id' :: nat
  type' :: nat
  payload :: OperationMessagePayload

text \<open>
  \<open>parseMessage\<close>: the header is read first; a frame of kind \<open>GQL_DATA\<close> carries three
  more 32-bit fields and the chunk, any other frame carries JSON text from byte 8 on.
\<close>

definition parseMessage :: "MessageType \<Rightarrow> ArrayBuffer \<Rightarrow> js_exception + OperationMessage" where
  "parseMessage MT message =
     and_then (getUint32 message 0) (\<lambda>i.
     and_then (getUint32 message 4) (\<lambda>t.
       if t = GQL_DATA MT then
         and_then (getUint32 message 8) (\<lambda>f.
         and_then (getUint32 message 12) (\<lambda>c.
         and_then (getUint32 message 16) (\<lambda>n.
           Inr \<lparr>id' = i, type' = t,
                payload = FilePayload \<lparr>fileId = f, currentChunk = c, chunks = n,
                                         buffer = drop 20 message\<rparr>\<rparr>)))
       else
         and_then (JSON_parse (toString (drop 8 message))) (\<lambda>p.
           Inr \<lparr>id' = i, type' = t, payload = QueryPayload p\<rparr>)))"

text \<open>
  \<open>Uint8Array.set(source, offset)\<close> throws a RangeError when the source does not fit.
\<close>

definition Uint8Array_set :: "ArrayBuffer \<Rightarrow> byte list \<Rightarrow> nat \<Rightarrow> js_exception + ArrayBuffer" where
  "Uint8Array_set target source offset =
     (if length target < offset + length source then Inl RangeError
      else Inr (take offset target @ source @ drop (offset + length source) target))"

text \<open>
  \<open>buildMessage\<close>.  The id may be \<open>undefined\<close> (\<open>None\<close>), which \<open>setUint32\<close> writes as 0.
  \<open>JSON.stringify(payload) || ''\<close> is the empty string for an \<open>undefined\<close> payload.  The
  buffer is sized by the length of the string in code units, and then filled with its
  UTF-8 bytes.
\<close>

definition buildMessage :: "nat option \<Rightarrow> nat \<Rightarrow> json option \<Rightarrow> js_exception + ArrayBuffer" where
  "buildMessage i t p =
     (let serializedMessage = (case JSON_stringify p of None \<Rightarrow> [] | Some s \<Rightarrow> s);
          headerSize = 4 * 2;
          message = replicate (headerSize + length serializedMessage) 0
      in and_then (setUint32 message 0 (case i of None \<Rightarrow> 0 | Some n \<Rightarrow> n)) (\<lambda>message.
         and_then (setUint32 message 4 t) (\<lambda>message.
         Uint8Array_set message (Buffer_from serializedMessage) 8)))"

text \<open>
  Modelled from the spec: the encoder of a file-chunk frame, which is client code and not
  among the sources.  After the 8-byte header come three little-endian 32-bit fields,
  file id, current chunk index and total chunk count, and then the raw chunk.
\<close>

definition buildFileMessage :: "MessageType \<Rightarrow> nat \<Rightarrow> nat \<Rightarrow> nat \<Rightarrow> nat \<Rightarrow> ArrayBuffer \<Rightarrow> ArrayBuffer" where
  "buildFileMessage MT i f c n content =
     uint32_bytes i @ uint32_bytes (GQL_DATA MT) @ uint32_bytes f @ uint32_bytes c
       @ uint32_bytes n @ content"

section \<open>The server\<close>

subsection \<open>JavaScript values in conditions, property reads and template literals\<close>

text \<open>
  Truthiness of a value that may be \<open>undefined\<close>; a payload object literal, from which
  \<open>JSON.stringify\<close> drops the properties that are \<open>undefined\<close>; the read of a property;
  the string a template literal makes of a value.
\<close>

definition truthy :: "json option \<Rightarrow> bool" where
  "truthy v =
     (case v of
        None \<Rightarrow> False
      | Some JNull \<Rightarrow> False
      | Some (JBool b) \<Rightarrow> b
      | Some (JNumber n) \<Rightarrow> n \<noteq> 0
      | Some (JString s) \<Rightarrow> s \<noteq> []
      | Some _ \<Rightarrow> True)"

definition object_literal :: "(jsstring \<times> json option) list \<Rightarrow> json" where
  "object_literal props =
     JObject (concat (map (\<lambda>kv. case snd kv of None \<Rightarrow> [] | Some v \<Rightarrow> [(fst kv, v)]) props))"

definition get_property :: "json \<Rightarrow> jsstring \<Rightarrow> js_exception + json option" where
  "get_property v k =
     (case v of
        JNull \<Rightarrow> Inl TypeError
      | JObject kvs \<Rightarrow> Inr (map_of kvs k)
      | _ \<Rightarrow> Inr None)"

fun ToString :: "json \<Rightarrow> jsstring"
  and join_elements :: "json list \<Rightarrow> jsstring" where
  "ToString JNull = js ''null''"
| "ToString (JBool b) = (if b then js ''true'' else js ''false'')"
| "ToString (JNumber n) = NumberToString n"
| "ToString (JString s) = s"
| "ToString (JArray vs) = join_elements vs"
| "ToString (JObject kvs) = js ''[object Object]''"
| "join_elements [] = []"
| "join_elements [v] = (if v = JNull then [] else ToString v)"
| "join_elements (v # w # vs) = (if v = JNull then [] else ToString v) @ 0x2C # join_elements (w # vs)"

text \<open>
  The properties of an exception that the server reads.  The message text of an
  exception raised by the engine is the engine's own: it is a parameter.
\<close>

definition error_name :: "js_exception \<Rightarrow> json option" where
  "error_name e =
     (case e of
        RangeError \<Rightarrow> Some (JString (js ''RangeError''))
      | SyntaxError \<Rightarrow> Some (JString (js ''SyntaxError''))
      | TypeError \<Rightarrow> Some (JString (js ''TypeError''))
      | Error m \<Rightarrow> Some (JString (js ''Error''))
      | Thrown t \<Rightarrow> thrown_name t)"

definition error_message :: "(js_exception \<Rightarrow> jsstring) \<Rightarrow> js_exception \<Rightarrow> json option" where
  "error_message engine_message e =
     (case e of
        Error m \<Rightarrow> Some (JString m)
      | Thrown t \<Rightarrow> thrown_message t
      | _ \<Rightarrow> Some (JString (engine_message e)))"

definition error_errors :: "js_exception \<Rightarrow> json option" where
  "error_errors e = (case e of Thrown t \<Rightarrow> thrown_errors t | _ \<Rightarrow> None)"

definition Object_keys_error :: "js_exception \<Rightarrow> jsstring list" where
  "Object_keys_error e = (case e of Thrown t \<Rightarrow> map fst (thrown_enumerable t) | _ \<Rightarrow> [])"

definition error_json :: "js_exception \<Rightarrow> json" where
  "error_json e = (case e of Thrown t \<Rightarrow> JObject (thrown_enumerable t) | _ \<Rightarrow> JObject [])"

subsection \<open>Result sequences\<close>

text \<open>
  An \<open>ExecutionIterator\<close> is known by what the server does with it: whether it has a
  \<open>return\<close> method.  \<open>AsyncIterator n r\<close> is an iterator that the executor made.

  Modelled from the spec: \<open>createEmptyIterable\<close> and \<open>createIterableFromPromise\<close> are
  helpers that are not among the sources.  The first makes the placeholder operation that
  has no result and that a stop can find and cancel; the second makes the one-element
  sequence of a single eventual result.  \<open>IteratorFromArray\<close> is what the library's
  \<open>createAsyncIterator\<close> makes of a one-element array.  All three have a \<open>return\<close> method.
\<close>

datatype ExecutionIterator =
    EmptyIterable
  | IterableFromPromise
  | IteratorFromArray
  | AsyncIterator nat bool

fun has_return :: "ExecutionIterator \<Rightarrow> bool" where
  "has_return (AsyncIterator n r) = r"
| "has_return it = True"

text \<open>
  What a sequence goes on to produce: its items in order, and then its end, if it ends.
\<close>

datatype sequence_end = Completes | Fails js_exception | Unfinished

record result_sequence =
  iterator :: ExecutionIterator
  items :: "json list"
  ending :: sequence_end

subsection \<open>Options, hooks and the executor\<close>

record ExecutionParams =
  query :: "json option"
  variables :: "json option"
  operationName :: "json option"
  context' :: "json option"
  formatResponse :: "(json \<Rightarrow> js_exception + json option) option"
  formatError :: "(js_exception \<Rightarrow> js_exception + json option) option"

text \<open>
  What a hook does when called: it returns a value, it throws, or it returns a promise,
  given here with the result the promise settles with.
\<close>

datatype 'a hook_outcome =
    Returns 'a
  | Throws js_exception
  | ReturnsPromise "js_exception + 'a"

text \<open>A value that \<open>onOperation\<close> may produce, and its \<open>typeof\<close>.\<close>

datatype hook_value =
    HookUndefined
  | HookNull
  | HookBoolean bool
  | HookNumber int
  | HookString jsstring
  | HookFunction
  | HookObject ExecutionParams

fun typeof :: "hook_value \<Rightarrow> string" where
  "typeof HookUndefined = ''undefined''"
| "typeof HookNull = ''object''"
| "typeof (HookBoolean b) = ''boolean''"
| "typeof (HookNumber n) = ''number''"
| "typeof (HookString s) = ''string''"
| "typeof HookFunction = ''function''"
| "typeof (HookObject p) = ''object''"

text \<open>
  The read of a property of \<open>params\<close>: a TypeError on \<open>null\<close> and \<open>undefined\<close>, and
  \<open>undefined\<close> for every property of another primitive.
\<close>

definition params_of :: "hook_value \<Rightarrow> js_exception + ExecutionParams" where
  "params_of v =
     (case v of
        HookObject p \<Rightarrow> Inr p
      | HookNull \<Rightarrow> Inl TypeError
      | HookUndefined \<Rightarrow> Inl TypeError
      | _ \<Rightarrow> Inr \<lparr>query = None, variables = None, operationName = None, context' = None,
                   formatResponse = None, formatError = None\<rparr>)"

text \<open>
  What the executor gives back: it throws, it returns a promise (with the value the promise
  settles with: one result, or a sequence), it returns a sequence, or something else.
\<close>

datatype execution_value =
    SingleResult json
  | Sequence result_sequence

datatype executor_result =
    ExecutorThrows js_exception
  | ExecutorPromise "js_exception + execution_value"
  | ExecutorAsyncIterable result_sequence
  | ExecutorOther

type_synonym executor =
  "json option \<Rightarrow> json option \<Rightarrow> json option \<Rightarrow> json option \<Rightarrow> executor_result"

text \<open>
  The server: its options, the collaborators it calls, and the constants of the modules
  that are not among the sources.  The schema and the root value are fixed inside
  \<open>parse\<close>, \<open>validate\<close> and the executors; a parsed document is a JSON value.  The hooks
  \<open>onOperationComplete\<close> and \<open>onDisconnect\<close> are only notified; the record says whether they
  are configured.
\<close>

record SubscriptionServer =
  MessageTypes :: MessageType
  GRAPHQL_WS :: jsstring
  GRAPHQL_SUBSCRIPTIONS :: jsstring
  engine_message :: "js_exception \<Rightarrow> jsstring"
  keepAlive :: "nat option"
  onConnect :: "(OperationMessagePayload \<Rightarrow> json hook_outcome) option"
  onOperation :: "(OperationMessage \<Rightarrow> ExecutionParams \<Rightarrow> hook_value hook_outcome) option"
  onOperationComplete :: bool
  onDisconnect :: bool
  parse :: "jsstring \<Rightarrow> js_exception + json"
  validate :: "json option \<Rightarrow> js_exception + json list"
  isASubscriptionOperation :: "json option \<Rightarrow> json option \<Rightarrow> bool"
  execute :: executor
  subscribe :: "executor option"

subsection \<open>The connection\<close>

datatype ready_state = CONNECTING | OPEN | CLOSING | CLOSED

text \<open>
  What the server does to the world outside the connection context, in order.
  \<open>ExecutorCalled s d c v n\<close> is a call of the executor, of \<open>subscribe\<close> when \<open>s\<close> holds and
  of \<open>execute\<close> otherwise, with the document, the context, the variables and the operation
  name.
\<close>

datatype effect =
    Sent ArrayBuffer
  | SocketClose "nat option"
  | SetTimeout_close_1011
  | IteratorReturn ExecutionIterator
  | OnOperationComplete nat
  | OnDisconnect
  | OnConnect OperationMessagePayload
  | OnOperation OperationMessage
  | ExecutorCalled bool "json option" "json option" "json option" "json option"
  | SubjectNext jsstring nat ArrayBuffer
  | ConsoleError
  | Unhandled js_exception

text \<open>
  The initialization promise: not yet resolved; resolved with the promise of the connect
  hook, which has not settled yet (it will settle with the given result); fulfilled;
  rejected.  A \<open>reaction\<close> is a callback that a message handler passed to
  \<open>initPromise.then\<close>.
\<close>

datatype init_promise =
    Pending
  | Awaiting "js_exception + json"
  | Fulfilled json
  | Rejected js_exception

datatype reaction =
    InitReaction nat
  | StartReaction OperationMessage
  | DataReaction OperationMessage
  | StopReaction nat

text \<open>
  The connection context, together with the state of the socket, the callbacks waiting
  on \<open>initPromise\<close>, the timers, and the trace of effects.  \<open>operations\<close> and \<open>files\<close> are
  the two registries; \<open>files\<close> holds the keys under which a \<open>Subject\<close> is registered.
\<close>

record ConnectionContext =
  initPromise :: init_promise
  reactions :: "reaction list"
  isLegacy :: bool
  readyState :: ready_state
  files :: "jsstring list"
  operations :: "(nat \<times> ExecutionIterator) list"
  keepAliveTimer :: bool
  timeouts :: nat
  trace :: "effect list"

definition socket_close :: "ConnectionContext \<Rightarrow> nat option \<Rightarrow> ConnectionContext" where
  "socket_close ctx code =
     ctx\<lparr>readyState := (if readyState ctx = CLOSED then CLOSED else CLOSING),
         trace := trace ctx @ [SocketClose code]\<rparr>"

subsection \<open>Sending\<close>

definition sendMessage ::
    "ConnectionContext \<Rightarrow> nat option \<Rightarrow> nat \<Rightarrow> json option \<Rightarrow> js_exception + ConnectionContext" where
  "sendMessage ctx opId t p =
     and_then (buildMessage opId t p) (\<lambda>message.
       Inr (if readyState ctx = OPEN then ctx\<lparr>trace := trace ctx @ [Sent message]\<rparr> else ctx))"

definition sendError ::
    "SubscriptionServer \<Rightarrow> ConnectionContext \<Rightarrow> nat option \<Rightarrow> json option \<Rightarrow> nat option
      \<Rightarrow> js_exception + ConnectionContext" where
  "sendError srv ctx opId errorPayload overrideDefaultErrorType =
     (let sanitizedOverrideDefaultErrorType =
            (case overrideDefaultErrorType of
               None \<Rightarrow> GQL_ERROR (MessageTypes srv)
             | Some t \<Rightarrow> if t = 0 then GQL_ERROR (MessageTypes srv) else t)
      in if sanitizedOverrideDefaultErrorType \<noteq> GQL_CONNECTION_ERROR (MessageTypes srv)
            \<and> sanitizedOverrideDefaultErrorType \<noteq> GQL_ERROR (MessageTypes srv)
         then Inl (Error (js (''overrideDefaultErrorType should be one of the allowed error messages''
                              @ '' GQL_CONNECTION_ERROR or GQL_ERROR'')))
         else sendMessage ctx opId sanitizedOverrideDefaultErrorType errorPayload)"

subsection \<open>The operation registry\<close>

definition unsubscribe :: "SubscriptionServer \<Rightarrow> ConnectionContext \<Rightarrow> nat \<Rightarrow> ConnectionContext" where
  "unsubscribe srv ctx opId =
     (case map_of (operations ctx) opId of
        None \<Rightarrow> ctx
      | Some it \<Rightarrow>
          ctx\<lparr>operations := AList.delete opId (operations ctx),
              trace := trace ctx
                @ (if has_return it then [IteratorReturn it] else [])
                @ (if onOperationComplete srv then [OnOperationComplete opId] else [])\<rparr>)"

text \<open>\<open>Object.keys\<close> of the registry lists the ids in ascending order.\<close>

definition onClose :: "SubscriptionServer \<Rightarrow> ConnectionContext \<Rightarrow> ConnectionContext" where
  "onClose srv ctx = foldl (unsubscribe srv) ctx (sort (map fst (operations ctx)))"

subsection \<open>File streams\<close>

definition getFileId :: "nat \<Rightarrow> json option \<Rightarrow> jsstring" where
  "getFileId opId fid =
     NumberToString (int opId) @ 0x2D # (case fid of None \<Rightarrow> js ''undefined'' | Some v \<Rightarrow> ToString v)"

text \<open>
  \<open>processFiles\<close> walks the variables in key order.  A variable that is \<open>null\<close> makes
  \<open>val.hasOwnProperty\<close> throw; what was replaced before stays replaced.  The \<open>Subject\<close> put
  into a descriptor is denoted by its key.
\<close>

definition hasOwnProperty :: "json \<Rightarrow> jsstring \<Rightarrow> js_exception + bool" where
  "hasOwnProperty v k =
     (case v of
        JNull \<Rightarrow> Inl TypeError
      | JObject kvs \<Rightarrow> Inr (map_of kvs k \<noteq> None)
      | _ \<Rightarrow> Inr False)"

definition file_descriptor :: "json \<Rightarrow> jsstring \<Rightarrow> json" where
  "file_descriptor v fid =
     object_literal
       [(js ''name'', (case get_property v (js ''name'') of Inr x \<Rightarrow> x | Inl e \<Rightarrow> None)),
        (js ''file'', Some (JString fid)),
        (js ''chunks'', (case get_property v (js ''chunks'') of Inr x \<Rightarrow> x | Inl e \<Rightarrow> None))]"

fun processFiles_loop ::
    "nat \<Rightarrow> jsstring list \<Rightarrow> json list \<Rightarrow> json list
      \<Rightarrow> (jsstring list \<times> json list) \<times> js_exception option" where
  "processFiles_loop opId fs acc [] = ((fs, acc), None)"
| "processFiles_loop opId fs acc (v # vs) =
     (case hasOwnProperty v (js ''___file'') of
        Inl e \<Rightarrow> ((fs, acc @ v # vs), Some e)
      | Inr False \<Rightarrow> processFiles_loop opId fs (acc @ [v]) vs
      | Inr True \<Rightarrow>
          (let fid = getFileId opId (case get_property v (js ''id'') of Inr x \<Rightarrow> x | Inl e \<Rightarrow> None)
           in processFiles_loop opId (if fid \<in> set fs then fs else fs @ [fid])
                (acc @ [file_descriptor v fid]) vs))"

definition processFiles ::
    "ConnectionContext \<Rightarrow> nat \<Rightarrow> json option
      \<Rightarrow> ConnectionContext \<times> (js_exception + json option)" where
  "processFiles ctx opId vars =
     (case vars of
        None \<Rightarrow> (ctx, Inl TypeError)
      | Some JNull \<Rightarrow> (ctx, Inl TypeError)
      | Some (JObject kvs) \<Rightarrow>
          (case processFiles_loop opId (files ctx) [] (map snd kvs) of
             ((fs, vs), failure) \<Rightarrow>
               (ctx\<lparr>files := fs\<rparr>,
                case failure of
                  Some e \<Rightarrow> Inl e
                | None \<Rightarrow> Inr (Some (JObject (zip (map fst kvs) vs)))))
      | Some (JArray xs) \<Rightarrow>
          (case processFiles_loop opId (files ctx) [] xs of
             ((fs, vs), failure) \<Rightarrow>
               (ctx\<lparr>files := fs\<rparr>,
                case failure of
                  Some e \<Rightarrow> Inl e
                | None \<Rightarrow> Inr (Some (JArray vs))))
      | Some v \<Rightarrow> (ctx, Inr (Some v)))"

subsection \<open>Starting an operation\<close>

text \<open>
  The handler of a start message is a chain of promise callbacks.  Each callback is a
  function of the connection context it finds when it runs; callbacks of other messages
  may run between two of them.  \<open>GQL_START_then\<close> is the callback passed to
  \<open>initPromise.then\<close>: it cancels an operation already registered under the id, registers
  the placeholder and calls the operation hook.  It ends without a chain when it throws,
  and otherwise with the promise of the params that the rest of the chain waits for.
\<close>

definition is_object :: "json \<Rightarrow> bool" where
  "is_object v = (case v of JObject kvs \<Rightarrow> True | JArray vs \<Rightarrow> True | _ \<Rightarrow> False)"

definition Object_assign_empty :: "json \<Rightarrow> json" where
  "Object_assign_empty v =
     (case v of
        JObject kvs \<Rightarrow> JObject kvs
      | JArray vs \<Rightarrow> JObject (zip (map (\<lambda>n. NumberToString (int n)) [0 ..< length vs]) vs)
      | _ \<Rightarrow> JObject [])"

definition payload_property :: "OperationMessagePayload \<Rightarrow> jsstring \<Rightarrow> js_exception + json option" where
  "payload_property p k =
     (case p of
        QueryPayload v \<Rightarrow> get_property v k
      | FilePayload f \<Rightarrow> Inr None)"

definition baseParams_of :: "OperationMessage \<Rightarrow> json \<Rightarrow> js_exception + ExecutionParams" where
  "baseParams_of parsedMessage initResult =
     and_then (payload_property (payload parsedMessage) (js ''query'')) (\<lambda>q.
     and_then (payload_property (payload parsedMessage) (js ''variables'')) (\<lambda>v.
     and_then (payload_property (payload parsedMessage) (js ''operationName'')) (\<lambda>n.
       Inr \<lparr>query = q, variables = v, operationName = n,
            context' = Some (Object_assign_empty (if is_object initResult then initResult else JObject [])),
            formatResponse = None, formatError = None\<rparr>)))"

datatype start_chain =
    NoChain js_exception
  | Chain nat ExecutionParams "js_exception + hook_value"

definition GQL_START_then ::
    "SubscriptionServer \<Rightarrow> ConnectionContext \<Rightarrow> OperationMessage \<Rightarrow> json
      \<Rightarrow> ConnectionContext \<times> start_chain" where
  "GQL_START_then srv ctx parsedMessage initResult =
     (let opId = id' parsedMessage;
          ctx1 = (if map_of (operations ctx) opId \<noteq> None then unsubscribe srv ctx opId else ctx)
      in case baseParams_of parsedMessage initResult of
           Inl e \<Rightarrow> (ctx1, NoChain e)
         | Inr baseParams \<Rightarrow>
             (let ctx2 = ctx1\<lparr>operations := AList.update opId EmptyIterable (operations ctx1)\<rparr>
              in case onOperation srv of
                   None \<Rightarrow> (ctx2, Chain opId baseParams (Inr (HookObject baseParams)))
                 | Some hook \<Rightarrow>
                     (let ctx3 = ctx2\<lparr>trace := trace ctx2 @ [OnOperation parsedMessage]\<rparr>
                      in case hook parsedMessage baseParams of
                           Throws e \<Rightarrow> (ctx3, NoChain e)
                         | Returns v \<Rightarrow> (ctx3, Chain opId baseParams (Inr v))
                         | ReturnsPromise r \<Rightarrow> (ctx3, Chain opId baseParams r))))"

text \<open>
  The callback that receives the params.  It throws, or it returns the promise of what
  is to be executed, given with the value that promise settles with, and the params.
\<close>

datatype params_chain =
    Threw js_exception
  | Execution "js_exception + execution_value" hook_value

definition invalid_params_message :: jsstring where
  "invalid_params_message =
     js ''Invalid params returned from onOperation! return values must be an object!''"

definition classify_execution ::
    "SubscriptionServer \<Rightarrow> ConnectionContext \<Rightarrow> nat \<Rightarrow> hook_value \<Rightarrow> executor_result
      \<Rightarrow> ConnectionContext \<times> params_chain" where
  "classify_execution srv ctx opId params promiseOrIterable =
     (case promiseOrIterable of
        ExecutorThrows e \<Rightarrow> (ctx, Threw e)
      | ExecutorPromise r \<Rightarrow> (ctx, Execution r params)
      | ExecutorAsyncIterable s \<Rightarrow> (ctx, Execution (Inr (Sequence s)) params)
      | ExecutorOther \<Rightarrow>
          (let ctx1 = ctx\<lparr>trace := trace ctx @ [ConsoleError]\<rparr>
           in case sendError srv ctx1 (Some opId)
                     (Some (object_literal
                        [(js ''message'', Some (JString (js ''GraphQL execute engine is not available'')))]))
                     None of
                Inl e \<Rightarrow> (ctx1, Threw e)
              | Inr ctx2 \<Rightarrow> (ctx2, Threw TypeError)))"

definition document_of :: "SubscriptionServer \<Rightarrow> ExecutionParams \<Rightarrow> js_exception + json option" where
  "document_of srv baseParams =
     (case query baseParams of
        Some (JString s) \<Rightarrow> map_sum id Some (parse srv s)
      | q \<Rightarrow> Inr q)"

definition GQL_START_params ::
    "SubscriptionServer \<Rightarrow> ConnectionContext \<Rightarrow> nat \<Rightarrow> ExecutionParams \<Rightarrow> hook_value
      \<Rightarrow> ConnectionContext \<times> params_chain" where
  "GQL_START_params srv ctx opId baseParams params =
     (if typeof params \<noteq> ''object'' then
        (case sendError srv ctx (Some opId)
                (Some (object_literal [(js ''message'', Some (JString invalid_params_message))])) None of
           Inl e \<Rightarrow> (ctx, Threw e)
         | Inr ctx1 \<Rightarrow> (ctx1, Threw (Error invalid_params_message)))
      else
        (case document_of srv baseParams of
           Inl e \<Rightarrow> (ctx, Threw e)
         | Inr document \<Rightarrow>
             (case validate srv document of
                Inl e \<Rightarrow> (ctx, Threw e)
              | Inr validationErrors \<Rightarrow>
                  if 0 < length validationErrors then
                    (ctx, Execution
                            (Inr (Sequence \<lparr>iterator = IterableFromPromise,
                                            items = [object_literal
                                                       [(js ''errors'', Some (JArray validationErrors))]],
                                            ending = Completes\<rparr>))
                            params)
                  else
                    (case params_of params of
                       Inl e \<Rightarrow> (ctx, Threw e)
                     | Inr p \<Rightarrow>
                         (let subscription =
                                (subscribe srv \<noteq> None
                                  \<and> isASubscriptionOperation srv document (operationName p));
                              executor = (if subscription then the (subscribe srv) else execute srv)
                          in case processFiles ctx opId (variables p) of
                               (ctx1, Inl e) \<Rightarrow> (ctx1, Threw e)
                             | (ctx1, Inr vars) \<Rightarrow>
                                 classify_execution srv
                                   (ctx1\<lparr>trace := trace ctx1
                                       @ [ExecutorCalled subscription document (context' p) vars
                                            (operationName p)]\<rparr>)
                                   opId params
                                   (executor document (context' p) vars (operationName p)))))))"

text \<open>
  The last \<open>catch\<close> of the chain: it reports the exception and removes the operation.
\<close>

definition GQL_START_catch ::
    "SubscriptionServer \<Rightarrow> ConnectionContext \<Rightarrow> nat \<Rightarrow> js_exception \<Rightarrow> ConnectionContext" where
  "GQL_START_catch srv ctx opId e =
     (case (if truthy (error_errors e)
            then sendMessage ctx (Some opId) (GQL_DATA (MessageTypes srv))
                   (Some (object_literal [(js ''errors'', error_errors e)]))
            else sendError srv ctx (Some opId)
                   (Some (object_literal [(js ''message'', error_message (engine_message srv) e)])) None) of
        Inl e' \<Rightarrow> ctx\<lparr>trace := trace ctx @ [Unhandled e']\<rparr>
      | Inr ctx1 \<Rightarrow> unsubscribe srv ctx1 opId)"

text \<open>
  The callbacks that follow the settled execution: the sequence to deliver is the one the
  executor gave, or the one-element sequence of its single result; \<open>forAwaitEach\<close> is
  started on it, and then the sequence is registered under the id.
\<close>

definition sequence_of :: "execution_value \<Rightarrow> result_sequence" where
  "sequence_of ei =
     (case ei of
        Sequence s \<Rightarrow> s
      | SingleResult r \<Rightarrow> \<lparr>iterator = IteratorFromArray, items = [r], ending = Completes\<rparr>)"

definition GQL_START_register ::
    "ConnectionContext \<Rightarrow> nat \<Rightarrow> execution_value \<Rightarrow> ConnectionContext" where
  "GQL_START_register ctx opId ei =
     ctx\<lparr>operations := AList.update opId (iterator (sequence_of ei)) (operations ctx)\<rparr>"

subsection \<open>Delivering the results\<close>

text \<open>
  The three callbacks of \<open>forAwaitEach\<close>: for an item, for the end of the sequence, and
  the \<open>catch\<close> for a failure of the sequence or of one of the other two.  An exception that
  the \<open>catch\<close> itself throws is handled by nobody.
\<close>

definition apply_formatError :: "ExecutionParams \<Rightarrow> js_exception \<Rightarrow> bool \<times> json option" where
  "apply_formatError p e =
     (case formatError p of
        None \<Rightarrow> (False, Some (error_json e))
      | Some f \<Rightarrow> (case f e of Inl err \<Rightarrow> (True, Some (error_json e)) | Inr r \<Rightarrow> (False, r)))"

definition error_payload :: "SubscriptionServer \<Rightarrow> ExecutionParams \<Rightarrow> js_exception \<Rightarrow> json option" where
  "error_payload srv p e =
     (if length (Object_keys_error e) = 0
      then Some (object_literal
                   [(js ''name'', error_name e),
                    (js ''message'', error_message (engine_message srv) e)])
      else snd (apply_formatError p e))"

definition on_failure ::
    "SubscriptionServer \<Rightarrow> ConnectionContext \<Rightarrow> nat \<Rightarrow> hook_value \<Rightarrow> js_exception
      \<Rightarrow> ConnectionContext" where
  "on_failure srv ctx opId params e =
     (case params_of params of
        Inl e' \<Rightarrow> ctx\<lparr>trace := trace ctx @ [Unhandled e']\<rparr>
      | Inr p \<Rightarrow>
          (let ctx1 = (if fst (apply_formatError p e)
                       then ctx\<lparr>trace := trace ctx @ [ConsoleError]\<rparr> else ctx)
           in case sendError srv ctx1 (Some opId) (error_payload srv p e) None of
                Inl e' \<Rightarrow> ctx1\<lparr>trace := trace ctx1 @ [Unhandled e']\<rparr>
              | Inr ctx2 \<Rightarrow> ctx2))"

definition apply_formatResponse :: "ExecutionParams \<Rightarrow> json \<Rightarrow> bool \<times> json option" where
  "apply_formatResponse p v =
     (case formatResponse p of
        None \<Rightarrow> (False, Some v)
      | Some f \<Rightarrow> (case f v of Inl err \<Rightarrow> (True, Some v) | Inr r \<Rightarrow> (False, r)))"

definition on_value ::
    "SubscriptionServer \<Rightarrow> ConnectionContext \<Rightarrow> nat \<Rightarrow> hook_value \<Rightarrow> json
      \<Rightarrow> ConnectionContext \<times> js_exception option" where
  "on_value srv ctx opId params v =
     (case params_of params of
        Inl e \<Rightarrow> (ctx, Some e)
      | Inr p \<Rightarrow>
          (let ctx1 = (if fst (apply_formatResponse p v)
                       then ctx\<lparr>trace := trace ctx @ [ConsoleError]\<rparr> else ctx)
           in case sendMessage ctx1 (Some opId) (GQL_DATA (MessageTypes srv))
                     (snd (apply_formatResponse p v)) of
                Inl e \<Rightarrow> (ctx1, Some e)
              | Inr ctx2 \<Rightarrow> (ctx2, None)))"

definition on_complete ::
    "SubscriptionServer \<Rightarrow> ConnectionContext \<Rightarrow> nat \<Rightarrow> js_exception + ConnectionContext" where
  "on_complete srv ctx opId = sendMessage ctx (Some opId) (GQL_COMPLETE (MessageTypes srv)) (Some JNull)"

text \<open>
  \<open>forAwaitEach\<close> on a sequence whose further course is known, with no other callback in
  between: the items in order, until one fails, and then the end.
\<close>

fun forAwaitEach ::
    "SubscriptionServer \<Rightarrow> ConnectionContext \<Rightarrow> nat \<Rightarrow> hook_value \<Rightarrow> json list \<Rightarrow> sequence_end
      \<Rightarrow> ConnectionContext" where
  "forAwaitEach srv ctx opId params [] Completes =
     (case on_complete srv ctx opId of
        Inl e \<Rightarrow> on_failure srv ctx opId params e
      | Inr ctx1 \<Rightarrow> ctx1)"
| "forAwaitEach srv ctx opId params [] (Fails e) = on_failure srv ctx opId params e"
| "forAwaitEach srv ctx opId params [] Unfinished = ctx"
| "forAwaitEach srv ctx opId params (v # vs) fin =
     (case on_value srv ctx opId params v of
        (ctx1, Some e) \<Rightarrow> on_failure srv ctx1 opId params e
      | (ctx1, None) \<Rightarrow> forAwaitEach srv ctx1 opId params vs fin)"

text \<open>
  The whole chain of one start message, each callback run on the context the one before
  it left: no callback of another message runs in between.
\<close>

definition GQL_START_settled ::
    "SubscriptionServer \<Rightarrow> ConnectionContext \<Rightarrow> nat \<Rightarrow> ExecutionParams
      \<Rightarrow> js_exception + hook_value \<Rightarrow> ConnectionContext" where
  "GQL_START_settled srv ctx opId baseParams promisedParams =
     (case promisedParams of
        Inl e \<Rightarrow> GQL_START_catch srv ctx opId e
      | Inr params \<Rightarrow>
          (case GQL_START_params srv ctx opId baseParams params of
             (ctx1, Threw e) \<Rightarrow> GQL_START_catch srv ctx1 opId e
           | (ctx1, Execution (Inl e) params') \<Rightarrow> GQL_START_catch srv ctx1 opId e
           | (ctx1, Execution (Inr ei) params') \<Rightarrow>
               forAwaitEach srv (GQL_START_register ctx1 opId ei) opId params'
                 (items (sequence_of ei)) (ending (sequence_of ei))))"

definition GQL_START_alone ::
    "SubscriptionServer \<Rightarrow> ConnectionContext \<Rightarrow> OperationMessage \<Rightarrow> json \<Rightarrow> ConnectionContext" where
  "GQL_START_alone srv ctx parsedMessage initResult =
     (case GQL_START_then srv ctx parsedMessage initResult of
        (ctx1, NoChain e) \<Rightarrow> ctx1\<lparr>trace := trace ctx1 @ [Unhandled e]\<rparr>
      | (ctx1, Chain opId baseParams promisedParams) \<Rightarrow>
          GQL_START_settled srv ctx1 opId baseParams promisedParams)"

subsection \<open>The handlers that wait for the initialization\<close>

text \<open>
  The callback of a data message: the chunk goes to the \<open>Subject\<close> registered under the
  key, if the operation and the \<open>Subject\<close> are there.  The switch reaches this case with a
  file payload only.
\<close>

definition GQL_DATA_then :: "ConnectionContext \<Rightarrow> OperationMessage \<Rightarrow> ConnectionContext" where
  "GQL_DATA_then ctx parsedMessage =
     (case payload parsedMessage of
        QueryPayload v \<Rightarrow> ctx
      | FilePayload f \<Rightarrow>
          (let opId = id' parsedMessage;
               fid = getFileId opId (Some (JNumber (int (fileId f))))
           in if map_of (operations ctx) opId \<noteq> None \<and> fid \<in> set (files ctx)
              then ctx\<lparr>trace := trace ctx @ [SubjectNext fid (currentChunk f) (buffer f)]\<rparr>
              else ctx))"

text \<open>
  The two callbacks of the init message: the \<open>catch\<close>, which reports the error and arms
  the timer that closes the socket, and the \<open>then\<close>, which acknowledges, unless the result
  is \<open>false\<close>.
\<close>

definition init_catch ::
    "SubscriptionServer \<Rightarrow> ConnectionContext \<Rightarrow> nat \<Rightarrow> js_exception \<Rightarrow> ConnectionContext" where
  "init_catch srv ctx opId error =
     (case sendError srv ctx (Some opId)
             (Some (object_literal [(js ''message'', error_message (engine_message srv) error)]))
             (Some (GQL_CONNECTION_ERROR (MessageTypes srv))) of
        Inl e \<Rightarrow> ctx\<lparr>trace := trace ctx @ [Unhandled e]\<rparr>
      | Inr ctx1 \<Rightarrow> ctx1\<lparr>timeouts := Suc (timeouts ctx1), trace := trace ctx1 @ [SetTimeout_close_1011]\<rparr>)"

definition init_then ::
    "SubscriptionServer \<Rightarrow> ConnectionContext \<Rightarrow> nat \<Rightarrow> json \<Rightarrow> ConnectionContext" where
  "init_then srv ctx opId result =
     (if result = JBool False then init_catch srv ctx opId (Error (js ''Prohibited connection!''))
      else
        (case sendMessage ctx None (GQL_CONNECTION_ACK (MessageTypes srv)) None of
           Inl e \<Rightarrow> init_catch srv ctx opId e
         | Inr ctx1 \<Rightarrow>
             if keepAlive srv \<noteq> None \<and> keepAlive srv \<noteq> Some 0 then
               (case sendMessage ctx1 None (GQL_CONNECTION_KEEP_ALIVE (MessageTypes srv)) None of
                  Inl e \<Rightarrow> init_catch srv ctx1 opId e
                | Inr ctx2 \<Rightarrow> ctx2)
             else ctx1))"

text \<open>
  A callback waiting on \<open>initPromise\<close> runs when the promise is fulfilled; only the init
  message has a callback for a rejection.  A start callback leaves its chain behind.
\<close>

definition run_reaction ::
    "SubscriptionServer \<Rightarrow> js_exception + json \<Rightarrow> ConnectionContext \<Rightarrow> reaction
      \<Rightarrow> ConnectionContext \<times> start_chain list" where
  "run_reaction srv settled ctx r =
     (case settled of
        Inr initResult \<Rightarrow>
          (case r of
             InitReaction opId \<Rightarrow> (init_then srv ctx opId initResult, [])
           | StartReaction m \<Rightarrow>
               (case GQL_START_then srv ctx m initResult of (ctx1, chain) \<Rightarrow> (ctx1, [chain]))
           | DataReaction m \<Rightarrow> (GQL_DATA_then ctx m, [])
           | StopReaction opId \<Rightarrow> (unsubscribe srv ctx opId, []))
      | Inl e \<Rightarrow>
          (case r of
             InitReaction opId \<Rightarrow> (init_catch srv ctx opId e, [])
           | _ \<Rightarrow> (ctx, [])))"

fun run_reactions ::
    "SubscriptionServer \<Rightarrow> js_exception + json \<Rightarrow> ConnectionContext \<Rightarrow> reaction list
      \<Rightarrow> ConnectionContext \<times> start_chain list" where
  "run_reactions srv settled ctx [] = (ctx, [])"
| "run_reactions srv settled ctx (r # rs) =
     (case run_reaction srv settled ctx r of
        (ctx1, spawned) \<Rightarrow>
          (case run_reactions srv settled ctx1 rs of
             (ctx2, later) \<Rightarrow> (ctx2, spawned @ later)))"

definition then_initPromise ::
    "SubscriptionServer \<Rightarrow> ConnectionContext \<Rightarrow> reaction \<Rightarrow> ConnectionContext \<times> start_chain list" where
  "then_initPromise srv ctx r =
     (case initPromise ctx of
        Fulfilled v \<Rightarrow> run_reaction srv (Inr v) ctx r
      | Rejected e \<Rightarrow> run_reaction srv (Inl e) ctx r
      | _ \<Rightarrow> (ctx\<lparr>reactions := reactions ctx @ [r]\<rparr>, []))"

text \<open>
  The promise of the connect hook settles, and with it \<open>initPromise\<close>: the waiting
  callbacks run in the order in which they were registered.
\<close>

definition settle_initPromise ::
    "SubscriptionServer \<Rightarrow> ConnectionContext \<Rightarrow> ConnectionContext \<times> start_chain list" where
  "settle_initPromise srv ctx =
     (case initPromise ctx of
        Awaiting r \<Rightarrow>
          run_reactions srv r
            (ctx\<lparr>initPromise := (case r of Inl e \<Rightarrow> Rejected e | Inr v \<Rightarrow> Fulfilled v),
                 reactions := []\<rparr>)
            (reactions ctx)
      | _ \<Rightarrow> (ctx, []))"

subsection \<open>\<open>onMessage\<close>\<close>

text \<open>
  The handler of a frame.  An exception of \<open>parseMessage\<close> leaves the handler, before it
  has done anything.  The cases of the switch are tried in their order.  The init case
  resolves \<open>initPromise\<close> with the promise of the connect hook, if it is not resolved yet;
  a hook that returns or throws settles it before the next frame is handled.
\<close>

definition GQL_CONNECTION_INIT_case ::
    "SubscriptionServer \<Rightarrow> ConnectionContext \<Rightarrow> OperationMessage
      \<Rightarrow> ConnectionContext \<times> start_chain list" where
  "GQL_CONNECTION_INIT_case srv ctx parsedMessage =
     (let called = (case onConnect srv of
                      None \<Rightarrow> (ctx, Returns (JBool True))
                    | Some hook \<Rightarrow>
                        (ctx\<lparr>trace := trace ctx @ [OnConnect (payload parsedMessage)]\<rparr>,
                         hook (payload parsedMessage)));
          onConnectPromise = (case snd called of
                                Returns v \<Rightarrow> Inr v
                              | Throws e \<Rightarrow> Inl e
                              | ReturnsPromise r \<Rightarrow> r);
          settled_now = (case snd called of ReturnsPromise r \<Rightarrow> False | _ \<Rightarrow> True);
          ctx1 = fst called;
          ctx2 = (if initPromise ctx1 = Pending then ctx1\<lparr>initPromise := Awaiting onConnectPromise\<rparr>
                  else ctx1);
          registered = then_initPromise srv ctx2 (InitReaction (id' parsedMessage))
      in if initPromise ctx1 = Pending \<and> settled_now
         then (case settle_initPromise srv (fst registered) of
                 (ctx3, spawned) \<Rightarrow> (ctx3, snd registered @ spawned))
         else registered)"

definition reaction_of :: "SubscriptionServer \<Rightarrow> OperationMessage \<Rightarrow> reaction" where
  "reaction_of srv parsedMessage =
     (if type' parsedMessage = GQL_START (MessageTypes srv) then StartReaction parsedMessage
      else if type' parsedMessage = GQL_DATA (MessageTypes srv) then DataReaction parsedMessage
      else StopReaction (id' parsedMessage))"



definition onMessage ::
    "SubscriptionServer \<Rightarrow> ConnectionContext \<Rightarrow> ArrayBuffer
      \<Rightarrow> js_exception + ConnectionContext \<times> start_chain list" where
  "onMessage srv ctx message =
     and_then (parseMessage (MessageTypes srv) message) (\<lambda>parsedMessage.
       let opId = id' parsedMessage; t = type' parsedMessage; MT = MessageTypes srv
       in if t = GQL_CONNECTION_INIT MT then Inr (GQL_CONNECTION_INIT_case srv ctx parsedMessage)
          else if t = GQL_CONNECTION_TERMINATE MT then Inr (socket_close ctx None, [])
          else if t = GQL_START MT \<or> t = GQL_DATA MT \<or> t = GQL_STOP MT
            then Inr (then_initPromise srv ctx (reaction_of srv parsedMessage))
          else and_then (sendError srv ctx (Some opId)
                           (Some (object_literal
                              [(js ''message'', Some (JString (js ''Invalid message type!'')))]))
                           None)
                 (\<lambda>ctx1. Inr (ctx1, [])))"

subsection \<open>Accepting a socket, the keep-alive timer, closing\<close>

text \<open>
  \<open>indexOf\<close> on the protocol string of the socket finds a substring.  The two protocol
  names are constants of a module that is not among the sources.
\<close>

fun indexOf_found :: "jsstring \<Rightarrow> jsstring \<Rightarrow> bool" where
  "indexOf_found [] sub = (sub = [])"
| "indexOf_found (c # cs) sub = (take (length sub) (c # cs) = sub \<or> indexOf_found cs sub)"

datatype accepted = Refused nat | Accepted ConnectionContext

definition connectionHandler :: "SubscriptionServer \<Rightarrow> jsstring option \<Rightarrow> accepted" where
  "connectionHandler srv protocol =
     (if protocol = None
         \<or> (\<not> indexOf_found (the protocol) (GRAPHQL_WS srv)
             \<and> \<not> indexOf_found (the protocol) (GRAPHQL_SUBSCRIPTIONS srv))
      then Refused 1002
      else Accepted \<lparr>initPromise = Pending, reactions = [], isLegacy = False, readyState = OPEN,
                      files = [], operations = [],
                      keepAliveTimer = (keepAlive srv \<noteq> None \<and> keepAlive srv \<noteq> Some 0),
                      timeouts = 0, trace = []\<rparr>)"

text \<open>The callback of the keep-alive interval, when the interval is set.\<close>

definition keepAliveTimer_fires :: "SubscriptionServer \<Rightarrow> ConnectionContext \<Rightarrow> ConnectionContext" where
  "keepAliveTimer_fires srv ctx =
     (if \<not> keepAliveTimer ctx then ctx
      else if readyState ctx = OPEN then
        (case sendMessage ctx None (GQL_CONNECTION_KEEP_ALIVE (MessageTypes srv)) None of
           Inl e \<Rightarrow> ctx\<lparr>trace := trace ctx @ [Unhandled e]\<rparr>
         | Inr ctx1 \<Rightarrow> ctx1)
      else ctx\<lparr>keepAliveTimer := False\<rparr>)"

text \<open>
  \<open>connectionClosedHandler\<close> listens to both \<open>error\<close> and \<open>close\<close>: its argument is the
  error object, or the close code.
\<close>

datatype closed_argument = CloseCode nat | ErrorObject js_exception

definition connectionClosedHandler ::
    "SubscriptionServer \<Rightarrow> ConnectionContext \<Rightarrow> closed_argument \<Rightarrow> ConnectionContext" where
  "connectionClosedHandler srv ctx error =
     (let reported =
            (if (case error of CloseCode n \<Rightarrow> n \<noteq> 0 | ErrorObject e \<Rightarrow> True) then
               (case sendError srv ctx (Some 0)
                       (Some (object_literal
                          [(js ''message'',
                            (case error of
                               CloseCode n \<Rightarrow> Some (JNumber (int n))
                             | ErrorObject e \<Rightarrow>
                                 if truthy (error_message (engine_message srv) e)
                                 then error_message (engine_message srv) e
                                 else Some (error_json e)))]))
                       (Some (GQL_CONNECTION_ERROR (MessageTypes srv))) of
                  Inl e \<Rightarrow> Inl e
                | Inr ctx1 \<Rightarrow>
                    Inr (ctx1\<lparr>timeouts := Suc (timeouts ctx1),
                             trace := trace ctx1 @ [SetTimeout_close_1011]\<rparr>))
             else Inr ctx)
      in case reported of
           Inl e \<Rightarrow> ctx\<lparr>trace := trace ctx @ [Unhandled e]\<rparr>
         | Inr ctx1 \<Rightarrow>
             (let ctx2 = onClose srv ctx1
              in if onDisconnect srv then ctx2\<lparr>trace := trace ctx2 @ [OnDisconnect]\<rparr> else ctx2))"

text \<open>
  What happens to a connection: a frame arrives, the promise of the connect hook settles,
  the keep-alive interval fires, a close timer fires, the socket reports that it has
  closed (it is then in state \<open>CLOSED\<close>), the socket reports an error.
\<close>

datatype event =
    Message ArrayBuffer
  | ConnectSettles
  | KeepAliveFires
  | TimeoutFires
  | SocketClosed nat
  | SocketError js_exception

definition step :: "SubscriptionServer \<Rightarrow> ConnectionContext \<Rightarrow> event \<Rightarrow> ConnectionContext" where
  "step srv ctx ev =
     (case ev of
        Message message \<Rightarrow>
          (case onMessage srv ctx message of
             Inl e \<Rightarrow> ctx\<lparr>trace := trace ctx @ [Unhandled e]\<rparr>
           | Inr (ctx1, spawned) \<Rightarrow> ctx1)
      | ConnectSettles \<Rightarrow> fst (settle_initPromise srv ctx)
      | KeepAliveFires \<Rightarrow> keepAliveTimer_fires srv ctx
      | TimeoutFires \<Rightarrow>
          (if timeouts ctx = 0 then ctx
           else socket_close (ctx\<lparr>timeouts := timeouts ctx - 1\<rparr>) (Some 1011))
      | SocketClosed code \<Rightarrow> connectionClosedHandler srv (ctx\<lparr>readyState := CLOSED\<rparr>) (CloseCode code)
      | SocketError e \<Rightarrow> connectionClosedHandler srv ctx (ErrorObject e))"

text \<open>
  The frames that were handed to the socket, in order, and the calls of the executor.
\<close>

definition executor_calls :: "ConnectionContext \<Rightarrow> effect list" where
  "executor_calls ctx =
     filter (\<lambda>x. case x of ExecutorCalled s d c v n \<Rightarrow> True | _ \<Rightarrow> False) (trace ctx)"


definition sent_frames :: "ConnectionContext \<Rightarrow> ArrayBuffer list" where
  "sent_frames ctx = concat (map (\<lambda>x. case x of Sent m \<Rightarrow> [m] | _ \<Rightarrow> []) (trace ctx))"

subsection \<open>A server and a connection for the concrete instances\<close>

text \<open>
  A server with the numbering above, the protocol names \<open>graphql-ws\<close> and
  \<open>graphql-subscriptions\<close>, a keep-alive interval of one second, both notification hooks,
  no connect hook, no operation hook and no \<open>subscribe\<close>; its schema accepts every document
  and its executor answers with one result.  And the context of a freshly accepted socket.
\<close>

definition example_server :: SubscriptionServer where
  "example_server =
     \<lparr>MessageTypes = MessageType_in_order,
      GRAPHQL_WS = js ''graphql-ws'',
      GRAPHQL_SUBSCRIPTIONS = js ''graphql-subscriptions'',
      engine_message = (\<lambda>e. js ''engine''),
      keepAlive = Some 1000,
      onConnect = None,
      onOperation = None,
      onOperationComplete = True,
      onDisconnect = True,
      parse = (\<lambda>s. Inr (JString s)),
      validate = (\<lambda>d. Inr []),
      isASubscriptionOperation = (\<lambda>d n. False),
      execute = (\<lambda>d c v n. ExecutorPromise (Inr (SingleResult (JObject [(js ''data'', JNull)])))),
      subscribe = None\<rparr>"

definition fresh_context :: ConnectionContext where
  "fresh_context =
     \<lparr>initPromise = Pending, reactions = [], isLegacy = False, readyState = OPEN,
      files = [], operations = [], keepAliveTimer = True, timeouts = 0, trace = []\<rparr>"

text \<open>
  A start message with the query \<open>{ hello }\<close> and no variables, under the id 1, and the
  base params made of it when the connect hook gave \<open>true\<close>.
\<close>

definition start_hello :: OperationMessage where
  "start_hello = \<lparr>id' = 1, type' = 5,
                   payload = QueryPayload (JObject [(js ''query'', JString (js ''{ hello }'')),
                                                    (js ''variables'', JObject [])])\<rparr>"

definition hello_params :: ExecutionParams where
  "hello_params = \<lparr>query = Some (JString (js ''{ hello }'')), variables = Some (JObject []),
                    operationName = None, context' = Some (JObject []),
                    formatResponse = None, formatError = None\<rparr>"








definition failing_server :: SubscriptionServer where
  "failing_server =
     example_server\<lparr>execute :=
       (\<lambda>d c v n. ExecutorAsyncIterable
                    \<lparr>iterator = AsyncIterator 7 True, items = [],
                     ending = Fails (Error (js ''boom''))\<rparr>)\<rparr>"

section \<open>Properties of the codec\<close>


lemma ascii_Cons [simp]: "ascii (c # cs) = (c < 0x80 \<and> ascii cs)"
  by (simp add: ascii_def)

lemma ascii_Nil [simp]: "ascii []"
  by (simp add: ascii_def)

lemma ascii_not_surrogate:
  fixes c :: jschar
  assumes "c < 0x80"
  shows "\<not> is_high_surrogate c" "\<not> is_low_surrogate c"
  using assms unfolding is_high_surrogate_def is_low_surrogate_def
  by (simp_all add: word_less_nat_alt word_le_nat_alt)

lemma utf8_bytes_ascii:
  fixes c :: jschar
  assumes "c < 0x80"
  shows "utf8_bytes (unat c) = [of_nat (unat c)]"
  using assms by (simp add: utf8_bytes_def word_less_nat_alt)

lemma Buffer_from_ascii: "ascii s \<Longrightarrow> Buffer_from s = map ucast s"
  by (induction s rule: Buffer_from.induct)
     (simp_all add: ascii_not_surrogate utf8_bytes_ascii)




lemma length_Buffer_from_ascii: "ascii s \<Longrightarrow> length (Buffer_from s) = length s"
  by (simp add: Buffer_from_ascii)



























lemma skip_ws_punct [simp]:
  "skip_ws (0x2C # r) = 0x2C # r" "skip_ws (0x5D # r) = 0x5D # r"
  "skip_ws (0x7D # r) = 0x7D # r" "skip_ws (0x3A # r) = 0x3A # r"
  "skip_ws (0x22 # r) = 0x22 # r"
  by (simp_all add: skip_ws_def is_ws_def)

lemma follow_ok_punct [simp]:
  "follow_ok []" "follow_ok (0x2C # r)" "follow_ok (0x5D # r)" "follow_ok (0x7D # r)"
  by (simp_all add: follow_ok_def is_digit_def)
















lemma hd_append_start: "s \<noteq> [] \<Longrightarrow> hd (s @ r) = hd s"
  by simp



lemma unat_byte: "unat (of_nat n :: byte) = n mod 256"
  by (simp add: unat_of_nat)

lemma le32:
  fixes v :: nat
  shows "v mod 256 + 256 * (v div 256 mod 256) + 65536 * (v div 65536 mod 256)
          + 16777216 * (v div 16777216 mod 256) = v mod 4294967296"
proof -
  have a: "v mod 4294967296 = v mod 16777216 + 16777216 * (v div 16777216 mod 256)"
    using mod_mult2_eq [of v 16777216 256] by simp
  have b: "v mod 16777216 = v mod 65536 + 65536 * (v div 65536 mod 256)"
    using mod_mult2_eq [of v 65536 256] by simp
  have c: "v mod 65536 = v mod 256 + 256 * (v div 256 mod 256)"
    using mod_mult2_eq [of v 256 256] by simp
  show ?thesis using a b c by simp
qed

lemma length_uint32_bytes [simp]: "length (uint32_bytes v) = 4"
  by (simp add: uint32_bytes_def)

lemma getUint32_bytes:
  "getUint32 (pre @ uint32_bytes v @ post) (length pre) = Inr (v mod 4294967296)"
  by (simp add: getUint32_def uint32_bytes_def nth_append unat_byte le32)

lemma getUint32_at:
  assumes "length pre = k" "v < 4294967296"
  shows "getUint32 (pre @ uint32_bytes v @ post) k = Inr v"
  using getUint32_bytes [of pre v post] assms by simp

lemma setUint32_replicate_0:
  "setUint32 (replicate (8 + n) 0) 0 v = Inr (uint32_bytes v @ replicate (4 + n) 0)"
  by (simp add: setUint32_def replicate_add [symmetric] del: replicate_add)

lemma setUint32_at_4:
  "setUint32 (uint32_bytes i @ replicate (4 + n) 0) 4 v = Inr (uint32_bytes i @ uint32_bytes v @ replicate n 0)"
  by (simp add: setUint32_def)

lemma Uint8Array_set_fill:
  "length src = n \<Longrightarrow> Uint8Array_set (hdr1 @ hdr2 @ replicate n 0) src (length hdr1 + length hdr2)
     = Inr (hdr1 @ hdr2 @ src)"
  by (simp add: Uint8Array_set_def)

lemma buildMessage_header:
  "buildMessage i t p =
     Uint8Array_set (uint32_bytes (case i of None \<Rightarrow> 0 | Some n \<Rightarrow> n) @ uint32_bytes t
                       @ replicate (length (case JSON_stringify p of None \<Rightarrow> [] | Some s \<Rightarrow> s)) 0)
       (Buffer_from (case JSON_stringify p of None \<Rightarrow> [] | Some s \<Rightarrow> s)) 8"
  unfolding buildMessage_def Let_def
  using setUint32_replicate_0 setUint32_at_4
  by (simp add: and_then_def)

lemma buildMessage_ascii:
  assumes "ascii (SerializeJSONProperty p)"
  shows "buildMessage (Some i) t (Some p)
           = Inr (uint32_bytes i @ uint32_bytes t @ Buffer_from (SerializeJSONProperty p))"
  using Uint8Array_set_fill [of "Buffer_from (SerializeJSONProperty p)"
          "length (SerializeJSONProperty p)" "uint32_bytes i" "uint32_bytes t"]
    length_Buffer_from_ascii [OF assms]
  by (simp add: buildMessage_header JSON_stringify_def)

lemma buildMessage_undefined:
  "buildMessage i t None = Inr (uint32_bytes (case i of None \<Rightarrow> 0 | Some n \<Rightarrow> n) @ uint32_bytes t)"
  by (simp add: buildMessage_header JSON_stringify_def Uint8Array_set_def)








lemma buildMessage_non_ascii:
  "buildMessage (Some 1) 1 (Some (JString [0xE9])) = Inl RangeError"
  by (simp add: buildMessage_def JSON_stringify_def setUint32_def uint32_bytes_def and_then_def
      Uint8Array_set_def QuoteJSONString_def quote_char_def
      utf8_bytes_def is_high_surrogate_def is_low_surrogate_def)

text \<open>
  C6.  A file-chunk frame, encoded as the spec lays it out, decodes to the id, the type
  \<open>GQL_DATA\<close>, the file id, the chunk index and the chunk count it was built from, read at
  offsets 8, 12 and 16, and to the very bytes of the chunk, which start at offset 20.
\<close>

theorem buildFileMessage_parseMessage:
  assumes "i < 2 ^ 32" "GQL_DATA MT < 2 ^ 32" "f < 2 ^ 32" "c < 2 ^ 32" "n < 2 ^ 32"
  shows "parseMessage MT (buildFileMessage MT i f c n content)
           = Inr \<lparr>id' = i, type' = GQL_DATA MT,
                   payload = FilePayload \<lparr>fileId = f, currentChunk = c, chunks = n,
                                            buffer = content\<rparr>\<rparr>
         \<and> getUint32 (buildFileMessage MT i f c n content) 8 = Inr f
         \<and> getUint32 (buildFileMessage MT i f c n content) 12 = Inr c
         \<and> getUint32 (buildFileMessage MT i f c n content) 16 = Inr n
         \<and> drop 20 (buildFileMessage MT i f c n content) = content"
proof -
  let ?t = "GQL_DATA MT"
  let ?m = "buildFileMessage MT i f c n content"
  have r: "i < 4294967296" "?t < 4294967296" "f < 4294967296" "c < 4294967296" "n < 4294967296"
    using assms by simp_all
  have g0: "getUint32 ?m 0 = Inr i"
    using getUint32_at [of "[]" 0 i] r(1) by (simp add: buildFileMessage_def)
  have g4: "getUint32 ?m 4 = Inr ?t"
    using getUint32_at [of "uint32_bytes i" 4 ?t] r(2) by (simp add: buildFileMessage_def)
  have g8: "getUint32 ?m 8 = Inr f"
    using getUint32_at [of "uint32_bytes i @ uint32_bytes ?t" 8 f] r(3)
    by (simp add: buildFileMessage_def)
  have g12: "getUint32 ?m 12 = Inr c"
    using getUint32_at [of "uint32_bytes i @ uint32_bytes ?t @ uint32_bytes f" 12 c] r(4)
    by (simp add: buildFileMessage_def)
  have g16: "getUint32 ?m 16 = Inr n"
    using getUint32_at
      [of "uint32_bytes i @ uint32_bytes ?t @ uint32_bytes f @ uint32_bytes c" 16 n] r(5)
    by (simp add: buildFileMessage_def)
  have d: "drop 20 ?m = content"
    by (simp add: buildFileMessage_def)
  show ?thesis
    by (simp add: parseMessage_def g0 g4 g8 g12 g16 d and_then_def)
qed

theorem buildFileMessage_parseMessage_witness:
  "(7::nat) < 2 ^ 32 \<and> GQL_DATA MessageType_in_order < 2 ^ 32 \<and> (3::nat) < 2 ^ 32
   \<and> (0::nat) < 2 ^ 32 \<and> (2::nat) < 2 ^ 32
   \<and> parseMessage MessageType_in_order (buildFileMessage MessageType_in_order 7 3 0 2 [0xFF, 0x00, 0x41])
       = Inr \<lparr>id' = 7, type' = 6,
               payload = FilePayload \<lparr>fileId = 3, currentChunk = 0, chunks = 2,
                                        buffer = [0xFF, 0x00, 0x41]\<rparr>\<rparr>"
  using buildFileMessage_parseMessage [of 7 MessageType_in_order 3 0 2 "[0xFF, 0x00, 0x41]"]
  by (simp add: MessageType_in_order_def)

section \<open>Properties of the server\<close>


lemma invalid_type_text:
  "SerializeJSONProperty (JObject [(js ''message'', JString (js ''Invalid message type!''))])
     = js ''{\"message\":\"Invalid message type!\"}''"
  by (simp add: js_def QuoteJSONString_def quote_char_def)

lemma object_literal_message [simp]:
  "object_literal [(k, Some v)] = JObject [(k, v)]"
  by (simp add: object_literal_def)

lemma sendError_default:
  "sendError srv ctx opId p None = sendMessage ctx opId (GQL_ERROR (MessageTypes srv)) p"
  by (simp add: sendError_def)



text \<open>
  C10.  With a positive keep-alive interval, the interval is armed when the socket is
  accepted.  When it fires on the open socket, a \<open>connection_keep_alive\<close> frame is sent,
  although no init message has been handled: \<open>initPromise\<close> is not resolved, no callback
  waits for it, and the keep-alive frame is the first frame the client gets, before any
  acknowledgement.
\<close>

theorem keepAlive_before_init:
  assumes "keepAlive srv = Some n" and "0 < n"
    and "indexOf_found p (GRAPHQL_WS srv) \<or> indexOf_found p (GRAPHQL_SUBSCRIPTIONS srv)"
  shows "\<exists>ctx frame.
           connectionHandler srv (Some p) = Accepted ctx
         \<and> keepAliveTimer ctx \<and> readyState ctx = OPEN
         \<and> initPromise ctx = Pending \<and> reactions ctx = [] \<and> trace ctx = []
         \<and> buildMessage None (GQL_CONNECTION_KEEP_ALIVE (MessageTypes srv)) None = Inr frame
         \<and> trace (step srv ctx KeepAliveFires) = [Sent frame]
         \<and> initPromise (step srv ctx KeepAliveFires) = Pending"
  using assms
  by (auto simp: connectionHandler_def step_def keepAliveTimer_fires_def sendMessage_def
      buildMessage_undefined and_then_def)

theorem keepAlive_before_init_witness:
  "keepAlive example_server = Some 1000 \<and> (0::nat) < 1000
   \<and> indexOf_found (js ''graphql-ws'') (GRAPHQL_WS example_server)
   \<and> connectionHandler example_server (Some (js ''graphql-ws'')) = Accepted fresh_context
   \<and> trace (step example_server fresh_context KeepAliveFires) = [Sent [0, 0, 0, 0, 4, 0, 0, 0]]"
  using keepAlive_before_init [of example_server 1000 "js ''graphql-ws''"]
  by (auto simp: example_server_def fresh_context_def js_def connectionHandler_def
      MessageType_in_order_def buildMessage_undefined uint32_bytes_def)


subsection \<open>Nothing is sent on a closed socket\<close>

lemma sendMessage_closed:
  "readyState ctx = CLOSED \<Longrightarrow> sendMessage ctx i t p = Inr c \<Longrightarrow> c = ctx"
  by (auto simp: sendMessage_def and_then_def split: sum.splits)

lemma sendMessage_closed_cases:
  assumes "readyState ctx = CLOSED"
  obtains e where "sendMessage ctx i t p = Inl e" | "sendMessage ctx i t p = Inr ctx"
  using assms sendMessage_closed [of ctx i t p] by (cases "sendMessage ctx i t p") auto

lemma sendError_closed:
  "readyState ctx = CLOSED \<Longrightarrow> sendError srv ctx i p ov = Inr c \<Longrightarrow> c = ctx"
  by (auto simp: sendError_def Let_def dest: sendMessage_closed split: if_splits)

lemma sendError_closed_cases:
  assumes "readyState ctx = CLOSED"
  obtains e where "sendError srv ctx i p ov = Inl e" | "sendError srv ctx i p ov = Inr ctx"
  using assms sendError_closed [of ctx srv i p ov] by (cases "sendError srv ctx i p ov") auto

lemma unsubscribe_closed:
  "readyState ctx = CLOSED \<Longrightarrow>
     readyState (unsubscribe srv ctx opId) = CLOSED
     \<and> sent_frames (unsubscribe srv ctx opId) = sent_frames ctx"
  by (simp add: unsubscribe_def sent_frames_def split: option.splits)

lemma foldl_unsubscribe_closed:
  "readyState ctx = CLOSED \<Longrightarrow>
     readyState (foldl (unsubscribe srv) ctx ks) = CLOSED
     \<and> sent_frames (foldl (unsubscribe srv) ctx ks) = sent_frames ctx"
proof (induction ks arbitrary: ctx)
  case Nil
  then show ?case by simp
next
  case (Cons k ks)
  have a: "readyState (unsubscribe srv ctx k) = CLOSED"
    and b: "sent_frames (unsubscribe srv ctx k) = sent_frames ctx"
    using unsubscribe_closed [OF Cons.prems] by simp_all
  show ?case using Cons.IH [OF a] b by simp
qed

lemma onClose_closed:
  "readyState ctx = CLOSED \<Longrightarrow>
     readyState (onClose srv ctx) = CLOSED \<and> sent_frames (onClose srv ctx) = sent_frames ctx"
  unfolding onClose_def by (rule foldl_unsubscribe_closed)

lemma init_catch_closed:
  assumes "readyState ctx = CLOSED"
  shows "readyState (init_catch srv ctx opId e) = CLOSED
     \<and> sent_frames (init_catch srv ctx opId e) = sent_frames ctx"
  by (rule sendError_closed_cases [OF assms, of srv "Some opId"
        "Some (object_literal [(js ''message'', error_message (engine_message srv) e)])"
        "Some (GQL_CONNECTION_ERROR (MessageTypes srv))"])
     (simp_all add: init_catch_def sent_frames_def assms)

lemma init_then_closed:
  assumes "readyState ctx = CLOSED"
  shows "readyState (init_then srv ctx opId v) = CLOSED
     \<and> sent_frames (init_then srv ctx opId v) = sent_frames ctx"
proof (cases "v = JBool False")
  case True
  then show ?thesis using init_catch_closed [OF assms] by (simp add: init_then_def)
next
  case False
  show ?thesis
  proof (rule sendMessage_closed_cases [OF assms, of None "GQL_CONNECTION_ACK (MessageTypes srv)" None])
    fix e assume "sendMessage ctx None (GQL_CONNECTION_ACK (MessageTypes srv)) None = Inl e"
    then show ?thesis using False init_catch_closed [OF assms] by (simp add: init_then_def)
  next
    assume a: "sendMessage ctx None (GQL_CONNECTION_ACK (MessageTypes srv)) None = Inr ctx"
    show ?thesis
      by (rule sendMessage_closed_cases [OF assms, of None "GQL_CONNECTION_KEEP_ALIVE (MessageTypes srv)" None])
         (use a False init_catch_closed [OF assms] assms in \<open>simp_all add: init_then_def\<close>)
  qed
qed

lemma GQL_START_then_closed:
  "readyState ctx = CLOSED \<Longrightarrow>
     readyState (fst (GQL_START_then srv ctx m v)) = CLOSED
     \<and> sent_frames (fst (GQL_START_then srv ctx m v)) = sent_frames ctx"
  using unsubscribe_closed [of ctx srv "id' m"]
  by (auto simp: GQL_START_then_def Let_def sent_frames_def
      split: sum.splits option.splits hook_outcome.splits)

lemma GQL_DATA_then_closed:
  "readyState ctx = CLOSED \<Longrightarrow>
     readyState (GQL_DATA_then ctx m) = CLOSED
     \<and> sent_frames (GQL_DATA_then ctx m) = sent_frames ctx"
  by (auto simp: GQL_DATA_then_def Let_def sent_frames_def split: OperationMessagePayload.splits)

lemma run_reaction_closed:
  assumes "readyState ctx = CLOSED"
  shows "readyState (fst (run_reaction srv s ctx r)) = CLOSED
     \<and> sent_frames (fst (run_reaction srv s ctx r)) = sent_frames ctx"
proof (cases s)
  case (Inl e)
  then show ?thesis using init_catch_closed [OF assms] assms
    by (cases r) (simp_all add: run_reaction_def)
next
  case (Inr v)
  show ?thesis
  proof (cases r)
    case (StartReaction m)
    then show ?thesis using Inr GQL_START_then_closed [OF assms, of srv m v]
      by (cases "GQL_START_then srv ctx m v") (simp add: run_reaction_def)
  qed (use Inr init_then_closed [OF assms] GQL_DATA_then_closed [OF assms]
        unsubscribe_closed [OF assms] in \<open>simp_all add: run_reaction_def\<close>)
qed

lemma run_reactions_closed:
  "readyState ctx = CLOSED \<Longrightarrow>
     readyState (fst (run_reactions srv s ctx rs)) = CLOSED
     \<and> sent_frames (fst (run_reactions srv s ctx rs)) = sent_frames ctx"
proof (induction rs arbitrary: ctx)
  case Nil
  then show ?case by simp
next
  case (Cons r rs)
  obtain c1 sp where r1: "run_reaction srv s ctx r = (c1, sp)" by (cases "run_reaction srv s ctx r")
  have a: "readyState c1 = CLOSED" and b: "sent_frames c1 = sent_frames ctx"
    using run_reaction_closed [OF Cons.prems, of srv s r] r1 by simp_all
  obtain c2 sp2 where r2: "run_reactions srv s c1 rs = (c2, sp2)" by (cases "run_reactions srv s c1 rs")
  show ?case using Cons.IH [OF a] b r1 r2 by simp
qed

lemma then_initPromise_closed:
  "readyState ctx = CLOSED \<Longrightarrow>
     readyState (fst (then_initPromise srv ctx r)) = CLOSED
     \<and> sent_frames (fst (then_initPromise srv ctx r)) = sent_frames ctx"
  using run_reaction_closed [of ctx srv]
  by (auto simp: then_initPromise_def sent_frames_def split: init_promise.splits)

lemma settle_initPromise_closed:
  "readyState ctx = CLOSED \<Longrightarrow>
     readyState (fst (settle_initPromise srv ctx)) = CLOSED
     \<and> sent_frames (fst (settle_initPromise srv ctx)) = sent_frames ctx"
proof (cases "initPromise ctx")
  case (Awaiting r)
  assume c: "readyState ctx = CLOSED"
  let ?c = "ctx\<lparr>initPromise := (case r of Inl e \<Rightarrow> Rejected e | Inr v \<Rightarrow> Fulfilled v), reactions := []\<rparr>"
  have "readyState ?c = CLOSED" using c by simp
  from run_reactions_closed [OF this, of srv r "reactions ctx"] show ?thesis
    using Awaiting by (simp add: settle_initPromise_def sent_frames_def)
qed (simp_all add: settle_initPromise_def)

lemma GQL_CONNECTION_INIT_case_closed:
  assumes "readyState ctx = CLOSED"
  shows "readyState (fst (GQL_CONNECTION_INIT_case srv ctx m)) = CLOSED
     \<and> sent_frames (fst (GQL_CONNECTION_INIT_case srv ctx m)) = sent_frames ctx"
proof -
  define called where "called = (case onConnect srv of
                      None \<Rightarrow> (ctx, Returns (JBool True))
                    | Some hook \<Rightarrow>
                        (ctx\<lparr>trace := trace ctx @ [OnConnect (payload m)]\<rparr>,
                         hook (payload m)))"
  define p where "p = (case snd called of Returns v \<Rightarrow> Inr v | Throws e \<Rightarrow> Inl e
                              | ReturnsPromise r \<Rightarrow> r)"
  define ctx2 where "ctx2 = (if initPromise (fst called) = Pending
                             then (fst called)\<lparr>initPromise := Awaiting p\<rparr> else fst called)"
  define reg where "reg = then_initPromise srv ctx2 (InitReaction (id' m))"
  have c1: "readyState (fst called) = CLOSED \<and> sent_frames (fst called) = sent_frames ctx"
    using assms by (simp add: called_def sent_frames_def split: option.splits)
  then have c2: "readyState ctx2 = CLOSED \<and> sent_frames ctx2 = sent_frames ctx"
    by (simp add: ctx2_def sent_frames_def)
  then have c3: "readyState (fst reg) = CLOSED \<and> sent_frames (fst reg) = sent_frames ctx"
    using then_initPromise_closed [of ctx2 srv "InitReaction (id' m)"] by (simp add: reg_def)
  then have c4: "readyState (fst (settle_initPromise srv (fst reg))) = CLOSED
      \<and> sent_frames (fst (settle_initPromise srv (fst reg))) = sent_frames ctx"
    using settle_initPromise_closed [of "fst reg" srv] by simp
  obtain c5 sp5 where s5: "settle_initPromise srv (fst reg) = (c5, sp5)"
    by (cases "settle_initPromise srv (fst reg)")
  show ?thesis
    using c3 c4 s5
    unfolding GQL_CONNECTION_INIT_case_def Let_def called_def [symmetric] p_def [symmetric]
      ctx2_def [symmetric] reg_def [symmetric]
    by simp
qed

lemma socket_close_closed:
  "readyState ctx = CLOSED \<Longrightarrow>
     readyState (socket_close ctx code) = CLOSED
     \<and> sent_frames (socket_close ctx code) = sent_frames ctx"
  by (simp add: socket_close_def sent_frames_def)

lemma onMessage_closed:
  assumes "readyState ctx = CLOSED" and "onMessage srv ctx raw = Inr (c, sp)"
  shows "readyState c = CLOSED \<and> sent_frames c = sent_frames ctx"
proof (cases "parseMessage (MessageTypes srv) raw")
  case (Inl e)
  then show ?thesis using assms(2) by (simp add: onMessage_def and_then_def)
next
  case (Inr m)
  let ?t = "type' m" and ?MT = "MessageTypes srv"
  consider "?t = GQL_CONNECTION_INIT ?MT"
    | "?t \<noteq> GQL_CONNECTION_INIT ?MT" "?t = GQL_CONNECTION_TERMINATE ?MT"
    | "?t \<noteq> GQL_CONNECTION_INIT ?MT" "?t \<noteq> GQL_CONNECTION_TERMINATE ?MT"
      "?t = GQL_START ?MT \<or> ?t = GQL_DATA ?MT \<or> ?t = GQL_STOP ?MT"
    | "?t \<noteq> GQL_CONNECTION_INIT ?MT" "?t \<noteq> GQL_CONNECTION_TERMINATE ?MT"
      "\<not> (?t = GQL_START ?MT \<or> ?t = GQL_DATA ?MT \<or> ?t = GQL_STOP ?MT)"
    by blast
  then show ?thesis
  proof cases
    case 1
    then have "GQL_CONNECTION_INIT_case srv ctx m = (c, sp)"
      using assms(2) Inr by (simp add: onMessage_def and_then_def Let_def)
    then show ?thesis using GQL_CONNECTION_INIT_case_closed [OF assms(1), of srv m] by simp
  next
    case 2
    then have "socket_close ctx None = c"
      using assms(2) Inr by (simp add: onMessage_def and_then_def Let_def)
    then show ?thesis using socket_close_closed [OF assms(1), of None] by simp
  next
    case 3
    then have "then_initPromise srv ctx (reaction_of srv m) = (c, sp)"
      using assms(2) Inr by (simp add: onMessage_def and_then_def Let_def)
    then show ?thesis using then_initPromise_closed [OF assms(1), of srv "reaction_of srv m"] by simp
  next
    case 4
    then have "sendError srv ctx (Some (id' m))
                 (Some (object_literal [(js ''message'', Some (JString (js ''Invalid message type!'')))]))
                 None = Inr c"
      using assms(2) Inr by (auto simp: onMessage_def and_then_def Let_def split: sum.splits)
    then show ?thesis using sendError_closed [OF assms(1)] assms(1) by blast
  qed
qed

lemma keepAliveTimer_fires_closed:
  "readyState ctx = CLOSED \<Longrightarrow>
     readyState (keepAliveTimer_fires srv ctx) = CLOSED
     \<and> sent_frames (keepAliveTimer_fires srv ctx) = sent_frames ctx"
  by (simp add: keepAliveTimer_fires_def sent_frames_def)

lemma after_report_closed:
  assumes "readyState c = CLOSED"
  shows "readyState (if onDisconnect srv
                     then (onClose srv c)\<lparr>trace := trace (onClose srv c) @ [OnDisconnect]\<rparr>
                     else onClose srv c) = CLOSED
     \<and> sent_frames (if onDisconnect srv
                      then (onClose srv c)\<lparr>trace := trace (onClose srv c) @ [OnDisconnect]\<rparr>
                      else onClose srv c) = sent_frames c"
  using onClose_closed [OF assms, of srv] by (simp add: sent_frames_def)

lemma connectionClosedHandler_closed:
  assumes "readyState ctx = CLOSED"
  shows "readyState (connectionClosedHandler srv ctx a) = CLOSED
     \<and> sent_frames (connectionClosedHandler srv ctx a) = sent_frames ctx"
proof (cases "case a of CloseCode n \<Rightarrow> n \<noteq> 0 | ErrorObject e \<Rightarrow> True")
  case False
  then show ?thesis using after_report_closed [OF assms, of srv]
    by (simp add: connectionClosedHandler_def Let_def)
next
  case True
  let ?c = "ctx\<lparr>timeouts := Suc (timeouts ctx), trace := trace ctx @ [SetTimeout_close_1011]\<rparr>"
  have c: "readyState ?c = CLOSED" "sent_frames ?c = sent_frames ctx"
    using assms by (simp_all add: sent_frames_def)
  show ?thesis
    by (rule sendError_closed_cases [OF assms, of srv "Some 0"
          "Some (object_literal
                          [(js ''message'',
                            (case a of
                               CloseCode n \<Rightarrow> Some (JNumber (int n))
                             | ErrorObject e \<Rightarrow>
                                 if truthy (error_message (engine_message srv) e)
                                 then error_message (engine_message srv) e
                                 else Some (error_json e)))])"
          "Some (GQL_CONNECTION_ERROR (MessageTypes srv))"])
       (use True assms after_report_closed [OF c(1), of srv] c(2) in
         \<open>simp_all add: connectionClosedHandler_def Let_def sent_frames_def\<close>)
qed

lemma step_closed:
  "readyState ctx = CLOSED \<Longrightarrow>
     readyState (step srv ctx ev) = CLOSED \<and> sent_frames (step srv ctx ev) = sent_frames ctx"
proof (cases ev)
  case (Message raw)
  assume c: "readyState ctx = CLOSED"
  show ?thesis using Message c onMessage_closed [OF c, of srv raw]
    by (auto simp: step_def sent_frames_def split: sum.splits)
next
  case ConnectSettles
  assume "readyState ctx = CLOSED"
  then show ?thesis using ConnectSettles settle_initPromise_closed by (simp add: step_def)
next
  case KeepAliveFires
  assume "readyState ctx = CLOSED"
  then show ?thesis using KeepAliveFires keepAliveTimer_fires_closed by (simp add: step_def)
next
  case TimeoutFires
  assume "readyState ctx = CLOSED"
  then show ?thesis using TimeoutFires
    by (simp add: step_def socket_close_def sent_frames_def)
next
  case (SocketClosed code)
  assume "readyState ctx = CLOSED"
  then show ?thesis using SocketClosed
      connectionClosedHandler_closed [of "ctx\<lparr>readyState := CLOSED\<rparr>" srv "CloseCode code"]
    by (simp add: step_def sent_frames_def)
next
  case (SocketError e)
  assume "readyState ctx = CLOSED"
  then show ?thesis using SocketError connectionClosedHandler_closed by (simp add: step_def)
qed

lemma steps_closed:
  "readyState ctx = CLOSED \<Longrightarrow>
     readyState (foldl (step srv) ctx evs) = CLOSED
     \<and> sent_frames (foldl (step srv) ctx evs) = sent_frames ctx"
proof (induction evs arbitrary: ctx)
  case Nil
  then show ?case by simp
next
  case (Cons ev evs)
  have a: "readyState (step srv ctx ev) = CLOSED" and b: "sent_frames (step srv ctx ev) = sent_frames ctx"
    using step_closed [OF Cons.prems] by simp_all
  show ?case using Cons.IH [OF a] b by simp
qed


subsection \<open>The keep-alive timer\<close>

lemma unsubscribe_keepAliveTimer [simp]:
  "keepAliveTimer (unsubscribe srv ctx opId) = keepAliveTimer ctx"
  by (simp add: unsubscribe_def split: option.splits)

lemma foldl_unsubscribe_keepAliveTimer:
  "keepAliveTimer (foldl (unsubscribe srv) ctx ks) = keepAliveTimer ctx"
  by (induction ks arbitrary: ctx) simp_all

lemma onClose_keepAliveTimer [simp]:
  "keepAliveTimer (onClose srv ctx) = keepAliveTimer ctx"
  by (simp add: onClose_def foldl_unsubscribe_keepAliveTimer)

lemma sendMessage_keepAliveTimer:
  "sendMessage ctx i t p = Inr c \<Longrightarrow> keepAliveTimer c = keepAliveTimer ctx"
  by (auto simp: sendMessage_def and_then_def split: sum.splits if_splits)

lemma sendError_keepAliveTimer:
  "sendError srv ctx i p ov = Inr c \<Longrightarrow> keepAliveTimer c = keepAliveTimer ctx"
  by (auto simp: sendError_def Let_def dest: sendMessage_keepAliveTimer split: if_splits)

lemma connectionClosedHandler_keepAliveTimer:
  "keepAliveTimer (connectionClosedHandler srv ctx a) = keepAliveTimer ctx"
  by (auto simp: connectionClosedHandler_def Let_def dest: sendError_keepAliveTimer
      split: sum.splits)

lemma step_SocketClosed_keepAliveTimer:
  "keepAliveTimer (step srv ctx (SocketClosed code)) = keepAliveTimer ctx"
  by (simp add: step_def connectionClosedHandler_keepAliveTimer)

lemma step_SocketClosed_readyState:
  "readyState (step srv ctx (SocketClosed code)) = CLOSED"
  using connectionClosedHandler_closed [of "ctx\<lparr>readyState := CLOSED\<rparr>" srv "CloseCode code"]
  by (simp add: step_def)

theorem keepAlive_not_cancelled_counterexample:
  "keepAliveTimer fresh_context
   \<and> keepAliveTimer (step example_server fresh_context (SocketClosed 1000))
   \<and> readyState (step example_server fresh_context (SocketClosed 1000)) = CLOSED"
  by (simp add: step_SocketClosed_keepAliveTimer step_SocketClosed_readyState)
     (simp add: fresh_context_def)

text \<open>
  C8 (as amended).  The callback of the keep-alive interval sends a
  \<open>connection_keep_alive\<close> frame when it finds the socket open.  When it finds the socket
  in any other state it sends nothing and cancels the interval: this is the only place
  where the interval is cancelled.  The teardown that runs when the socket closes leaves
  the interval armed.  From the moment the socket is closed no frame is sent any more,
  whatever happens to the connection; in particular no keep-alive frame.
\<close>

theorem keepAlive_timer:
  "(keepAliveTimer ctx \<and> readyState ctx = OPEN \<longrightarrow>
      (\<exists>frame. buildMessage None (GQL_CONNECTION_KEEP_ALIVE (MessageTypes srv)) None = Inr frame
         \<and> step srv ctx KeepAliveFires = ctx\<lparr>trace := trace ctx @ [Sent frame]\<rparr>))
   \<and> (keepAliveTimer ctx \<and> readyState ctx \<noteq> OPEN \<longrightarrow>
        step srv ctx KeepAliveFires = ctx\<lparr>keepAliveTimer := False\<rparr>)
   \<and> keepAliveTimer (step srv ctx (SocketClosed code)) = keepAliveTimer ctx
   \<and> readyState (step srv ctx (SocketClosed code)) = CLOSED
   \<and> sent_frames (foldl (step srv) (step srv ctx (SocketClosed code)) evs)
       = sent_frames (step srv ctx (SocketClosed code))"
proof (intro conjI impI)
  assume "keepAliveTimer ctx \<and> readyState ctx = OPEN"
  then show "\<exists>frame. buildMessage None (GQL_CONNECTION_KEEP_ALIVE (MessageTypes srv)) None = Inr frame
         \<and> step srv ctx KeepAliveFires = ctx\<lparr>trace := trace ctx @ [Sent frame]\<rparr>"
    by (simp add: step_def keepAliveTimer_fires_def sendMessage_def buildMessage_undefined and_then_def)
next
  assume "keepAliveTimer ctx \<and> readyState ctx \<noteq> OPEN"
  then show "step srv ctx KeepAliveFires = ctx\<lparr>keepAliveTimer := False\<rparr>"
    by (simp add: step_def keepAliveTimer_fires_def)
next
  show "keepAliveTimer (step srv ctx (SocketClosed code)) = keepAliveTimer ctx"
    by (rule step_SocketClosed_keepAliveTimer)
next
  show "readyState (step srv ctx (SocketClosed code)) = CLOSED"
    by (rule step_SocketClosed_readyState)
next
  show "sent_frames (foldl (step srv) (step srv ctx (SocketClosed code)) evs)
       = sent_frames (step srv ctx (SocketClosed code))"
    using steps_closed [OF step_SocketClosed_readyState] by blast
qed

theorem keepAlive_timer_witness:
  "keepAliveTimer fresh_context \<and> readyState fresh_context = OPEN
   \<and> step example_server fresh_context KeepAliveFires
       = fresh_context\<lparr>trace := [Sent [0, 0, 0, 0, 4, 0, 0, 0]]\<rparr>
   \<and> keepAliveTimer (fresh_context\<lparr>readyState := CLOSED\<rparr>)
   \<and> readyState (fresh_context\<lparr>readyState := CLOSED\<rparr>) \<noteq> OPEN
   \<and> step example_server (fresh_context\<lparr>readyState := CLOSED\<rparr>) KeepAliveFires
       = fresh_context\<lparr>readyState := CLOSED, keepAliveTimer := False\<rparr>"
proof -
  have a: "keepAliveTimer fresh_context \<and> readyState fresh_context = OPEN"
    by (simp add: fresh_context_def)
  have b: "keepAliveTimer (fresh_context\<lparr>readyState := CLOSED\<rparr>)
      \<and> readyState (fresh_context\<lparr>readyState := CLOSED\<rparr>) \<noteq> OPEN"
    by (simp add: fresh_context_def)
  have f: "buildMessage None (GQL_CONNECTION_KEEP_ALIVE (MessageTypes example_server)) None
             = Inr [0, 0, 0, 0, 4, 0, 0, 0]"
    by (simp add: buildMessage_undefined uint32_bytes_def example_server_def MessageType_in_order_def)
  have t: "trace fresh_context = []" by (simp add: fresh_context_def)
  show ?thesis
    using keepAlive_timer [of fresh_context example_server 1000 "[]"]
      keepAlive_timer [of "fresh_context\<lparr>readyState := CLOSED\<rparr>" example_server 1000 "[]"]
      a b f t
    by auto
qed

subsection \<open>Every callback only adds to the trace\<close>












subsection \<open>Starting under an id that is in use\<close>










subsection \<open>Frames that arrive before the initialization has settled\<close>




















subsection \<open>What the first callback of a start leaves unchanged\<close>

lemma sent_frames_append [simp]:
  "sent_frames (ctx\<lparr>trace := trace ctx @ xs\<rparr>)
     = sent_frames ctx @ concat (map (\<lambda>x. case x of Sent m \<Rightarrow> [m] | _ \<Rightarrow> []) xs)"
  by (simp add: sent_frames_def)

lemma executor_calls_append [simp]:
  "executor_calls (ctx\<lparr>trace := trace ctx @ xs\<rparr>)
     = executor_calls ctx
         @ filter (\<lambda>x. case x of ExecutorCalled s d c v n \<Rightarrow> True | _ \<Rightarrow> False) xs"
  by (simp add: executor_calls_def)

lemma sent_frames_operations [simp]:
  "sent_frames (ctx\<lparr>operations := ops\<rparr>) = sent_frames ctx"
  "executor_calls (ctx\<lparr>operations := ops\<rparr>) = executor_calls ctx"
  by (simp_all add: sent_frames_def executor_calls_def)





lemma sendMessage_open:
  assumes "readyState ctx = OPEN" and "buildMessage i t p = Inr frame"
  shows "sendMessage ctx i t p = Inr (ctx\<lparr>trace := trace ctx @ [Sent frame]\<rparr>)"
  using assms by (simp add: sendMessage_def and_then_def)





subsection \<open>A document that fails validation\<close>






subsection \<open>A result sequence that fails\<close>

lemma sendMessage_operations:
  "sendMessage ctx i t p = Inr c \<Longrightarrow> operations c = operations ctx"
  by (auto simp: sendMessage_def and_then_def split: sum.splits if_splits)

lemma sendError_operations:
  "sendError srv ctx i p ov = Inr c \<Longrightarrow> operations c = operations ctx"
  by (auto simp: sendError_def Let_def dest: sendMessage_operations split: if_splits)

lemma on_failure_operations:
  "operations (on_failure srv ctx opId params e) = operations ctx"
  by (auto simp: on_failure_def Let_def dest: sendError_operations split: sum.splits)

text \<open>
  C5, at a concrete start.  The executor returns a sequence that fails with
  \<open>new Error('boom')\<close>.  The server sends the error frame with the payload
  \<open>{"name":"Error","message":"boom"}\<close>, and that is all: the sequence stays registered
  under the id, its \<open>return\<close> is not called and the operation-complete hook is not called.
\<close>

theorem sequence_failure_stays_registered:
  "GQL_START_alone failing_server fresh_context start_hello (JBool True)
     = fresh_context
         \<lparr>operations := [(1, AsyncIterator 7 True)],
          trace := [ExecutorCalled False (Some (JString (js ''{ hello }''))) (Some (JObject []))
                      (Some (JObject [])) None,
                    Sent ([1, 0, 0, 0, 7, 0, 0, 0]
                            @ Buffer_from (js ''{\"name\":\"Error\",\"message\":\"boom\"}''))]\<rparr>"
proof -
  have b: "baseParams_of start_hello (JBool True) = Inr hello_params"
    by (simp add: baseParams_of_def start_hello_def payload_property_def get_property_def
        and_then_def js_def is_object_def Object_assign_empty_def hello_params_def)
  have t: "GQL_START_then failing_server fresh_context start_hello (JBool True)
             = (fresh_context\<lparr>operations := [(1, EmptyIterable)]\<rparr>,
                Chain 1 hello_params (Inr (HookObject hello_params)))"
    by (simp add: GQL_START_then_def b Let_def)
       (simp add: fresh_context_def failing_server_def example_server_def start_hello_def)
  let ?c1 = "fresh_context\<lparr>operations := [(1, EmptyIterable)]\<rparr>"
  let ?call = "ExecutorCalled False (Some (JString (js ''{ hello }''))) (Some (JObject []))
                      (Some (JObject [])) None"
  let ?seq = "\<lparr>iterator = AsyncIterator 7 True, items = [], ending = Fails (Error (js ''boom''))\<rparr>"
  have p: "GQL_START_params failing_server ?c1 1 hello_params (HookObject hello_params)
             = (?c1\<lparr>trace := [?call]\<rparr>, Execution (Inr (Sequence ?seq)) (HookObject hello_params))"
    by (simp add: GQL_START_params_def document_of_def hello_params_def failing_server_def
        example_server_def params_of_def processFiles_def classify_execution_def Let_def
        fresh_context_def)
  let ?payload = "JObject [(js ''name'', JString (js ''Error'')), (js ''message'', JString (js ''boom''))]"
  have a: "ascii (SerializeJSONProperty ?payload)"
    by (simp add: js_def QuoteJSONString_def quote_char_def)
  have s: "SerializeJSONProperty ?payload = js ''{\"name\":\"Error\",\"message\":\"boom\"}''"
    by (simp add: js_def QuoteJSONString_def quote_char_def)
  have m: "buildMessage (Some 1) 7 (Some ?payload)
             = Inr ([1, 0, 0, 0, 7, 0, 0, 0] @ Buffer_from (js ''{\"name\":\"Error\",\"message\":\"boom\"}''))"
    using buildMessage_ascii [OF a, of 1 7] by (simp only: s) (simp add: uint32_bytes_def)
  let ?c2 = "fresh_context\<lparr>operations := [(1, AsyncIterator 7 True)], trace := [?call]\<rparr>"
  have o: "readyState ?c2 = OPEN" by (simp add: fresh_context_def)
  have e: "error_payload failing_server hello_params (Error (js ''boom'')) = Some ?payload"
    by (simp add: error_payload_def Object_keys_error_def object_literal_def error_name_def
        error_message_def)
  have g: "GQL_ERROR (MessageTypes failing_server) = 7"
    by (simp add: failing_server_def example_server_def MessageType_in_order_def)
  have fe: "apply_formatError hello_params (Error (js ''boom'')) = (False, Some (JObject []))"
    by (simp add: apply_formatError_def hello_params_def error_json_def)
  have se: "sendError failing_server ?c2 (Some 1) (Some ?payload) None
              = Inr (?c2\<lparr>trace := trace ?c2 @ [Sent ([1, 0, 0, 0, 7, 0, 0, 0]
                            @ Buffer_from (js ''{\"name\":\"Error\",\"message\":\"boom\"}''))]\<rparr>)"
    using sendMessage_open [OF o m] by (simp only: sendError_default g)
  have f: "on_failure failing_server ?c2 1 (HookObject hello_params) (Error (js ''boom''))
             = ?c2\<lparr>trace := trace ?c2 @ [Sent ([1, 0, 0, 0, 7, 0, 0, 0]
                            @ Buffer_from (js ''{\"name\":\"Error\",\"message\":\"boom\"}''))]\<rparr>"
    by (simp only: on_failure_def params_of_def hook_value.case sum.case fe fst_conv Let_def
        if_False e se)
  have rg: "GQL_START_register (?c1\<lparr>trace := [?call]\<rparr>) 1 (Sequence ?seq) = ?c2"
    by (simp add: GQL_START_register_def sequence_of_def fresh_context_def)
  have st: "GQL_START_settled failing_server ?c1 1 hello_params (Inr (HookObject hello_params))
              = on_failure failing_server ?c2 1 (HookObject hello_params) (Error (js ''boom''))"
    by (simp add: GQL_START_settled_def p sequence_of_def rg del: One_nat_def)
  have "GQL_START_alone failing_server fresh_context start_hello (JBool True)
          = ?c2\<lparr>trace := trace ?c2 @ [Sent ([1, 0, 0, 0, 7, 0, 0, 0]
                            @ Buffer_from (js ''{\"name\":\"Error\",\"message\":\"boom\"}''))]\<rparr>"
    by (simp only: GQL_START_alone_def t prod.case start_chain.case st f)
  then show ?thesis by (simp add: fresh_context_def)
qed

end
